theory Spec2Isabelle
  imports
    Complex_Main
    "HOL-Library.Char_ord"
    "HOL-Library.List_Lexorder"
    "HOL-Library.Multiset"
    "HOL-Library.Sublist"
begin

section \<open>Data model (app/models/location.py)\<close>

text \<open>
  Python floats are modelled as \<^typ>\<open>real\<close> (no NaN, no infinities;
  rounding is written out only for the coordinates of the fallback grid, see
  \<open>grid_point\<close>), Python ints as \<^typ>\<open>int\<close>, and \<open>str\<close> as
  \<^typ>\<open>string\<close> with one \<^typ>\<open>char\<close> per code point (every
  code point used by the source is below 256). An exception is a value \<open>Inl
  e\<close> of the result type \<open>error + 'a\<close>.
\<close>

datatype error = ValidationError | KeyError | ValueError

text \<open>
  The three accented category names of \<open>segmentoMaestro\<close>: \<open>a\<close>
  acute is U+00E1, \<open>o\<close> acute is U+00F3, \<open>e\<close> acute is U+00E9.
\<close>

definition Clasico :: string where
  "Clasico = ''Cl'' @ [CHR 0xE1] @ ''sico''"

definition Hogar_Reunion :: string where
  "Hogar_Reunion = ''Hogar Reuni'' @ [CHR 0xF3] @ ''n''"

definition Parada_Tecnica :: string where
  "Parada_Tecnica = ''Parada T'' @ [CHR 0xE9] @ ''cnica''"

record StoreLocation =
  tiendaId :: "int option"
  plazaCve :: int
  nivelSocioeconomico :: string
  entorno :: string
  mts2Ventas :: real
  puertasRefrig :: int
  cajonesEstacionamiento :: int
  latitud :: real
  longitud :: real
  segmentoMaestro :: string

text \<open>The field validators of \<open>StoreLocation\<close>, each with its \<open>allowed_values\<close>.\<close>

definition validate_nivel_socioeconomico :: "string \<Rightarrow> error + string" where
  "validate_nivel_socioeconomico v =
     (let allowed_values = [''A'', ''AB'', ''B'', ''BC'', ''C'', ''CD'', ''D'']
      in if v \<notin> set allowed_values then Inl ValidationError else Inr v)"

definition validate_entorno :: "string \<Rightarrow> error + string" where
  "validate_entorno v =
     (let allowed_values = [''Base'', ''Hogar'', ''Peatonal'', ''Receso'']
      in if v \<notin> set allowed_values then Inl ValidationError else Inr v)"

definition validate_segmento_maestro :: "string \<Rightarrow> error + string" where
  "validate_segmento_maestro v =
     (let allowed_values =
        [''Barrio Competido'', Clasico, Hogar_Reunion, ''Oficinistas'', Parada_Tecnica]
      in if v \<notin> set allowed_values then Inl ValidationError else Inr v)"

definition validate_latitud :: "real \<Rightarrow> error + real" where
  "validate_latitud v = (if \<not> (14.0 \<le> v \<and> v \<le> 33.0) then Inl ValidationError else Inr v)"

definition validate_longitud :: "real \<Rightarrow> error + real" where
  "validate_longitud v =
     (if \<not> (- 118.5 \<le> v \<and> v \<le> - 86.5) then Inl ValidationError else Inr v)"

definition is_ok :: "error + 'a \<Rightarrow> bool" where
  "is_ok r = (case r of Inl e \<Rightarrow> False | Inr v \<Rightarrow> True)"

text \<open>
  Constructing a \<open>StoreLocation\<close>: pydantic checks the \<open>Field\<close>
  constraints (\<open>ge\<close>, \<open>gt\<close>, \<open>le\<close>,
  \<open>min_length\<close>) and runs the validators; any failure raises one
  \<open>ValidationError\<close>. The validators return their argument unchanged, so a
  successful construction stores the given values.
\<close>

definition StoreLocation_init :: "StoreLocation \<Rightarrow> error + StoreLocation" where
  "StoreLocation_init d =
     (if 1 \<le> plazaCve d
         \<and> 1 \<le> length (nivelSocioeconomico d)
         \<and> is_ok (validate_nivel_socioeconomico (nivelSocioeconomico d))
         \<and> 1 \<le> length (entorno d)
         \<and> is_ok (validate_entorno (entorno d))
         \<and> 0 < mts2Ventas d
         \<and> 0 \<le> puertasRefrig d
         \<and> 0 \<le> cajonesEstacionamiento d
         \<and> 0 \<le> latitud d \<and> latitud d \<le> 90
         \<and> is_ok (validate_latitud (latitud d))
         \<and> - 180 \<le> longitud d \<and> longitud d \<le> 180
         \<and> is_ok (validate_longitud (longitud d))
         \<and> 1 \<le> length (segmentoMaestro d)
         \<and> is_ok (validate_segmento_maestro (segmentoMaestro d))
      then Inr d else Inl ValidationError)"

text \<open>
  The recommendation is one of four templated sentences, chosen by the score band and
  filled with the expected sales, the environment and the probability. The model keeps
  the band and the three parameters instead of the formatted Spanish text.
\<close>

datatype recommendation_text =
    Excelente real string real
  | Bueno real string real
  | Moderado real string real
  | Bajo real string real

record PredictionResponse =
  score :: real
  expectedSales :: real
  probability :: real
  recommendation :: recommendation_text

definition PredictionResponse_init :: "PredictionResponse \<Rightarrow> error + PredictionResponse" where
  "PredictionResponse_init r =
     (if 0 \<le> score r \<and> score r \<le> 1
         \<and> 0 \<le> expectedSales r
         \<and> 0 \<le> probability r \<and> probability r \<le> 1
      then Inr r else Inl ValidationError)"

text \<open>
  \<open>MapPoint\<close>: the fields \<open>id\<close> and \<open>score\<close> are named
  \<open>point_id\<close> and \<open>point_score\<close> here. The colour must match
  \<open>^#[0-9A-Fa-f]{6}$\<close>; Python's \<open>$\<close> also matches before one
  final newline.
\<close>

record MapPoint =
  point_id :: string
  lat :: real
  lng :: real
  point_score :: real
  color :: string

definition is_hex_digit :: "char \<Rightarrow> bool" where
  "is_hex_digit c = (c \<in> set ''0123456789ABCDEFabcdef'')"

definition validate_color :: "string \<Rightarrow> error + string" where
  "validate_color v =
     (case v of
        [] \<Rightarrow> Inl ValidationError
      | c # rest \<Rightarrow>
          if c = CHR ''#'' \<and> length (take 6 rest) = 6 \<and> list_all is_hex_digit (take 6 rest)
             \<and> (drop 6 rest = [] \<or> drop 6 rest = [CHR 0x0A])
          then Inr v else Inl ValidationError)"

definition MapPoint_init :: "MapPoint \<Rightarrow> error + MapPoint" where
  "MapPoint_init p =
     (if 0 \<le> lat p \<and> lat p \<le> 90
         \<and> - 180 \<le> lng p \<and> lng p \<le> 180
         \<and> 0 \<le> point_score p \<and> point_score p \<le> 1
         \<and> is_ok (validate_color (color p))
      then Inr p else Inl ValidationError)"

record MapBounds =
  north :: real
  south :: real
  east :: real
  west :: real

text \<open>
  \<open>validate_bounds\<close> is an \<open>after\<close> validator: it runs once the
  four coordinates have passed their \<open>Field\<close> ranges.
\<close>

definition validate_bounds :: "MapBounds \<Rightarrow> error + MapBounds" where
  "validate_bounds b =
     (if north b \<le> south b then Inl ValidationError
      else if east b \<le> west b then Inl ValidationError
      else Inr b)"

definition MapBounds_init :: "MapBounds \<Rightarrow> error + MapBounds" where
  "MapBounds_init b =
     (if 0 \<le> north b \<and> north b \<le> 90
         \<and> 0 \<le> south b \<and> south b \<le> 90
         \<and> - 180 \<le> east b \<and> east b \<le> 180
         \<and> - 180 \<le> west b \<and> west b \<le> 180
      then validate_bounds b else Inl ValidationError)"

text \<open>\<open>AreaRequest\<close>: the fields \<open>lat\<close> and \<open>lng\<close> are named \<open>area_lat\<close> and \<open>area_lng\<close> here.\<close>

record AreaRequest =
  area_lat :: real
  area_lng :: real
  radius :: real

record HeatmapData =
  points :: "MapPoint list"
  centerLat :: real
  centerLng :: real

definition HeatmapData_init :: "HeatmapData \<Rightarrow> error + HeatmapData" where
  "HeatmapData_init h =
     (if 0 \<le> centerLat h \<and> centerLat h \<le> 90
         \<and> - 180 \<le> centerLng h \<and> centerLng h \<le> 180
      then Inr h else Inl ValidationError)"

text \<open>
  A loop that builds a list and is aborted by the first exception: the results of the
  iterations in order, up to the first error.
\<close>

fun collect :: "(error + 'a) list \<Rightarrow> error + 'a list" where
  "collect [] = Inr []"
| "collect (r # rs) =
     (case r of
        Inl e \<Rightarrow> Inl e
      | Inr v \<Rightarrow> (case collect rs of Inl e \<Rightarrow> Inl e | Inr vs \<Rightarrow> Inr (v # vs)))"

section \<open>Data service (app/services/data\_service.py)\<close>

text \<open>
  A row of the store tables \<open>DIM_TIENDA.csv\<close> and
  \<open>DIM_TIENDA_TEST.csv\<close> after \<open>_preprocess_store_data\<close>: the rows
  with a missing critical column are dropped and the integer columns are cast, so only
  \<open>SEGMENTO_MAESTRO_DESC\<close> can still be missing (\<open>None\<close>). The
  fields carry the CSV column names.
\<close>

record DIM_TIENDA =
  TIENDA_ID :: int
  PLAZA_CVE :: int
  NIVELSOCIOECONOMICO_DES :: string
  ENTORNO_DES :: string
  MTS2VENTAS_NUM :: real
  PUERTASREFRIG_NUM :: int
  CAJONESESTACIONAMIENTO_NUM :: int
  LATITUD_NUM :: real
  LONGITUD_NUM :: real
  SEGMENTO_MAESTRO_DESC :: "string option"

text \<open>
  The loaded state of a \<open>DataService\<close>. \<open>combined_df\<close> holds the
  store columns of the merged training frame that \<open>_create_combined_dataset\<close>
  builds when the data is loaded (one row per store and month of sales);
  \<open>sales_target_df\<close> holds the rows (\<open>ENTORNO_DES\<close>,
  \<open>Meta_venta\<close>) of \<open>Meta_venta.csv\<close>.

  \<open>read_csv\<close> gives a column the dtype \<open>object\<close> when a cell of it
  holds text, and \<open>float64\<close> when every cell of it is empty; dropping rows and
  merging keep the dtype. \<open>NIVELSOCIOECONOMICO_DES\<close> and
  \<open>ENTORNO_DES\<close> hold a string in every row and are of dtype object.
  \<open>segmento_read_as_object\<close> records the dtype that
  \<open>SEGMENTO_MAESTRO_DESC\<close> was read with: it matters when no row of the merged
  frame has a segment.
\<close>

record DataService =
  stores_df :: "DIM_TIENDA list"
  test_stores_df :: "DIM_TIENDA list"
  combined_df :: "DIM_TIENDA list"
  segmento_read_as_object :: bool
  sales_target_df :: "(string \<times> real) list"

definition get_sales_target_for_environment :: "DataService \<Rightarrow> string \<Rightarrow> real option" where
  "get_sales_target_for_environment ds environment =
     (let target_row = filter (\<lambda>row. fst row = environment) (sales_target_df ds)
      in case target_row of [] \<Rightarrow> None | row # rest \<Rightarrow> Some (snd row))"

subsection \<open>Stores in an area\<close>

definition radians :: "real \<Rightarrow> real" where
  "radians x = x * pi / 180"

text \<open>The haversine distance, in km, from the point \<open>(lat, lng)\<close> to the store of a row.\<close>

definition distance_km :: "real \<Rightarrow> real \<Rightarrow> DIM_TIENDA \<Rightarrow> real" where
  "distance_km lat0 lng0 row =
     (let lat_rad = radians lat0;
          lng_rad = radians lng0;
          row_lat_rad = radians (LATITUD_NUM row);
          row_lng_rad = radians (LONGITUD_NUM row);
          dlon = row_lng_rad - lng_rad;
          dlat = row_lat_rad - lat_rad;
          a = (sin (dlat / 2))\<^sup>2 + cos lat_rad * cos row_lat_rad * (sin (dlon / 2))\<^sup>2;
          c = 2 * arcsin (sqrt a)
      in 6371 * c)"

text \<open>
  \<open>StoreLocation(**filtered_dict)\<close> on a row: the renamed columns become the
  fields; a missing \<open>segmentoMaestro\<close> is not a string and fails validation.
\<close>

definition row_to_StoreLocation :: "DIM_TIENDA \<Rightarrow> error + StoreLocation" where
  "row_to_StoreLocation row =
     (case SEGMENTO_MAESTRO_DESC row of
        None \<Rightarrow> Inl ValidationError
      | Some seg \<Rightarrow>
          StoreLocation_init
            \<lparr>tiendaId = Some (TIENDA_ID row),
             plazaCve = PLAZA_CVE row,
             nivelSocioeconomico = NIVELSOCIOECONOMICO_DES row,
             entorno = ENTORNO_DES row,
             mts2Ventas = MTS2VENTAS_NUM row,
             puertasRefrig = PUERTASREFRIG_NUM row,
             cajonesEstacionamiento = CAJONESESTACIONAMIENTO_NUM row,
             latitud = LATITUD_NUM row,
             longitud = LONGITUD_NUM row,
             segmentoMaestro = seg\<rparr>)"

text \<open>
  \<open>get_stores_in_area\<close>: the rows of both store tables within the radius, by
  increasing distance, each turned into a \<open>StoreLocation\<close>; any exception
  makes the result the empty list. (\<open>sort_values\<close> leaves the order of rows at
  equal distance open; the model keeps their table order.)
\<close>

definition get_stores_in_area :: "DataService \<Rightarrow> real \<Rightarrow> real \<Rightarrow> real \<Rightarrow> StoreLocation list" where
  "get_stores_in_area ds lat0 lng0 radius_km =
     (let all_stores_df = stores_df ds @ test_stores_df ds;
          nearby_stores_df = filter (\<lambda>row. distance_km lat0 lng0 row \<le> radius_km) all_stores_df;
          sorted_df = sort_key (distance_km lat0 lng0) nearby_stores_df
      in case collect (map row_to_StoreLocation sorted_df) of
           Inl e \<Rightarrow> []
         | Inr store_locations \<Rightarrow> store_locations)"

subsection \<open>Feature encoding\<close>

text \<open>
  \<open>pandas.get_dummies\<close> on one column of dtype object (\<open>_get_dummies_1d\<close>):
  the levels are the distinct values present in the column, in sorted order, missing cells
  left out; one indicator column \<open>pfx_level\<close> per level;
  \<open>drop_first\<close> removes the first of them.
\<close>

definition present_values :: "string option list \<Rightarrow> string list" where
  "present_values column = concat (map (\<lambda>cell. case cell of None \<Rightarrow> [] | Some v \<Rightarrow> [v]) column)"

definition get_dummies_1d :: "string \<Rightarrow> string option list \<Rightarrow> bool \<Rightarrow> string list" where
  "get_dummies_1d pfx column drop_first =
     (let levels = sort (remdups (present_values column));
          dummy_cols = map (\<lambda>level. pfx @ ''_'' @ level) levels
      in if drop_first then drop 1 dummy_cols else dummy_cols)"

text \<open>
  \<open>pandas.get_dummies\<close> on a data frame, called without \<open>columns=\<close>:
  only the columns of dtype object are encoded, each with its own name as prefix; the other
  columns are passed through unchanged, ahead of the indicator columns; a frame without a
  column of dtype object is returned as it is. A column is its name, whether its dtype is
  object, and its cells. The result is the list of the column names of the returned frame.
\<close>

type_synonym frame_column = "string \<times> bool \<times> string option list"

definition get_dummies :: "frame_column list \<Rightarrow> bool \<Rightarrow> string list" where
  "get_dummies data drop_first =
     (let data_to_encode = filter (\<lambda>col. fst (snd col)) data
      in if data_to_encode = [] then map fst data
         else map fst (filter (\<lambda>col. \<not> fst (snd col)) data)
              @ concat (map (\<lambda>col. get_dummies_1d (fst col) (snd (snd col)) drop_first)
                          data_to_encode))"

text \<open>
  The dtype of the segment column of the merged frame: a column that holds a string is of
  dtype object; a column with no string at all has the dtype it was read with.
\<close>

definition segmento_is_object :: "DataService \<Rightarrow> bool" where
  "segmento_is_object ds =
     (segmento_read_as_object ds
      \<or> present_values (map SEGMENTO_MAESTRO_DESC (combined_df ds)) \<noteq> [])"

definition numeric_features :: "string list" where
  "numeric_features =
     [''plazaCve'', ''mts2Ventas'', ''puertasRefrig'', ''cajonesEstacionamiento'',
      ''latitud'', ''longitud'']"

text \<open>
  \<open>get_training_data\<close>, reduced to the column names of the feature frame
  \<open>X\<close> it returns (the rows of \<open>X\<close> and the target
  \<open>y\<close> only matter to training): the six numeric columns, then the columns of
  \<open>pd.get_dummies(df[['nivelSocioeconomico', 'entorno', 'segmentoMaestro']],
  drop_first=True)\<close>.
\<close>

definition get_training_data_columns :: "DataService \<Rightarrow> string list" where
  "get_training_data_columns ds =
     (let df = combined_df ds;
          X_categorical =
            get_dummies
              [(''nivelSocioeconomico'', True,
                  map (\<lambda>row. Some (NIVELSOCIOECONOMICO_DES row)) df),
               (''entorno'', True, map (\<lambda>row. Some (ENTORNO_DES row)) df),
               (''segmentoMaestro'', segmento_is_object ds, map SEGMENTO_MAESTRO_DESC df)]
              True
      in numeric_features @ X_categorical)"

text \<open>
  A one-row data frame is the list of its columns, in order, each with the row's value.
  An indicator that pandas stores as \<open>True\<close> is the number 1.
\<close>

type_synonym frame = "(string \<times> real) list"

definition get_dummies_value :: "string \<Rightarrow> string \<Rightarrow> frame" where
  "get_dummies_value pfx v = [(pfx @ ''_'' @ v, 1)]"

text \<open>
  The loops \<open>for col in cols: if col not in X.columns: X[col] = 0\<close>: a column
  that is not there yet is appended with the value 0.
\<close>

fun add_zero_columns :: "string list \<Rightarrow> frame \<Rightarrow> frame" where
  "add_zero_columns [] X = X"
| "add_zero_columns (col # cols) X =
     add_zero_columns cols (if col \<notin> set (map fst X) then X @ [(col, 0)] else X)"

text \<open>\<open>X[feature_order]\<close>: the named columns in the given order; a missing name raises.\<close>

fun select_columns :: "frame \<Rightarrow> string list \<Rightarrow> error + frame" where
  "select_columns X [] = Inr []"
| "select_columns X (col # cols) =
     (case map_of X col of
        None \<Rightarrow> Inl KeyError
      | Some v \<Rightarrow>
          (case select_columns X cols of Inl e \<Rightarrow> Inl e | Inr rest \<Rightarrow> Inr ((col, v) # rest)))"

definition store_location_to_features :: "DataService \<Rightarrow> StoreLocation \<Rightarrow> error + frame" where
  "store_location_to_features ds location =
     (let feature_order = get_training_data_columns ds;
          nivel_cats = [''A'', ''AB'', ''B'', ''BC'', ''C'', ''CD'', ''D''];
          entorno_cats = [''Base'', ''Hogar'', ''Peatonal'', ''Receso''];
          segmento_cats =
            [''Barrio Competido'', Clasico, Hogar_Reunion, ''Oficinistas'', Parada_Tecnica];
          X0 = [(''plazaCve'', real_of_int (plazaCve location)),
                (''mts2Ventas'', mts2Ventas location),
                (''puertasRefrig'', real_of_int (puertasRefrig location)),
                (''cajonesEstacionamiento'', real_of_int (cajonesEstacionamiento location)),
                (''latitud'', latitud location),
                (''longitud'', longitud location)];
          nivel_dummies =
            add_zero_columns (map (\<lambda>cat. ''nivelSocioeconomico_'' @ cat) nivel_cats)
              (get_dummies_value ''nivelSocioeconomico'' (nivelSocioeconomico location));
          entorno_dummies =
            add_zero_columns (map (\<lambda>cat. ''entorno_'' @ cat) entorno_cats)
              (get_dummies_value ''entorno'' (entorno location));
          segmento_dummies =
            add_zero_columns (map (\<lambda>cat. ''segmentoMaestro_'' @ cat) segmento_cats)
              (get_dummies_value ''segmentoMaestro'' (segmentoMaestro location));
          X1 = X0 @ nivel_dummies @ entorno_dummies @ segmento_dummies;
          X2 = add_zero_columns feature_order X1
      in case select_columns X2 feature_order of
           Inl e \<Rightarrow> Inl ValueError
         | Inr X \<Rightarrow> Inr X)"

section \<open>Prediction service (app/services/prediction\_service.py)\<close>

text \<open>
  The fitted scaler and regressor are an opaque capability: a feature frame goes in, a
  performance ratio comes out, or the library raises.
\<close>

type_synonym performance_model = "frame \<Rightarrow> error + real"

definition calculate_success_probability :: "real \<Rightarrow> real" where
  "calculate_success_probability performance_ratio =
     (if performance_ratio \<le> 0 then 0.0
      else let prob = 1 / (1 + exp (- 5 * (performance_ratio - 0.8)))
           in min (max prob 0.0) 1.0)"

definition generate_recommendation ::
  "real \<Rightarrow> real \<Rightarrow> real \<Rightarrow> StoreLocation \<Rightarrow> recommendation_text" where
  "generate_recommendation sc expected_sales prob location =
     (if sc \<ge> 0.8 then Excelente expected_sales (entorno location) prob
      else if sc \<ge> 0.6 then Bueno expected_sales (entorno location) prob
      else if sc \<ge> 0.4 then Moderado expected_sales (entorno location) prob
      else Bajo expected_sales (entorno location) prob)"

text \<open>The score expression of \<open>predict_location\<close>: \<open>min(max(ratio / 1.5, 0.0), 1.0)\<close>.\<close>

definition score_of_ratio :: "real \<Rightarrow> real" where
  "score_of_ratio performance_ratio = min (max (performance_ratio / 1.5) 0.0) 1.0"

text \<open>
  \<open>sales_target * performance_ratio if sales_target else 0\<close>: a target that is
  \<open>None\<close> or 0 is falsy.
\<close>

definition expected_sales_of :: "real option \<Rightarrow> real \<Rightarrow> real" where
  "expected_sales_of sales_target performance_ratio =
     (case sales_target of
        None \<Rightarrow> 0
      | Some t \<Rightarrow> if t \<noteq> 0 then t * performance_ratio else 0)"

text \<open>
  \<open>predict_location\<close>. Every exception inside its \<open>try\<close> is
  re-raised as a \<open>ValueError\<close>. The prediction log is written after the
  response is built and swallows its own failures, so it does not change the result and is
  left out.
\<close>

definition predict_location ::
  "DataService \<Rightarrow> performance_model \<Rightarrow> StoreLocation \<Rightarrow> error + PredictionResponse" where
  "predict_location ds model location =
     (case store_location_to_features ds location of
        Inl e \<Rightarrow> Inl ValueError
      | Inr X \<Rightarrow>
          (case model X of
             Inl e \<Rightarrow> Inl ValueError
           | Inr performance_ratio \<Rightarrow>
               (let sales_target = get_sales_target_for_environment ds (entorno location);
                    expected_sales = expected_sales_of sales_target performance_ratio;
                    prob = calculate_success_probability performance_ratio;
                    sc = score_of_ratio performance_ratio;
                    rec = generate_recommendation sc expected_sales prob location
                in case PredictionResponse_init
                          \<lparr>score = sc, expectedSales = expected_sales,
                           probability = prob, recommendation = rec\<rparr> of
                     Inl e \<Rightarrow> Inl ValueError
                   | Inr response \<Rightarrow> Inr response)))"

subsection \<open>Area aggregation\<close>

text \<open>
  The part of \<open>get_optimal_locations\<close> after the stores of the area are
  fetched: score every store (the first failing prediction aborts), sort by score with
  \<open>reverse=True\<close> (Python's sort is stable, also when reversed), keep the
  first five.
\<close>

definition score_stores ::
  "DataService \<Rightarrow> performance_model \<Rightarrow> StoreLocation list \<Rightarrow> error + (StoreLocation \<times> real) list" where
  "score_stores ds model existing_stores =
     collect (map (\<lambda>store. case predict_location ds model store of
                              Inl e \<Rightarrow> Inl e
                            | Inr prediction \<Rightarrow> Inr (store, score prediction))
                  existing_stores)"

definition optimal_of_stores ::
  "DataService \<Rightarrow> performance_model \<Rightarrow> StoreLocation list \<Rightarrow> error + StoreLocation list" where
  "optimal_of_stores ds model existing_stores =
     (if existing_stores = [] then Inr []
      else case score_stores ds model existing_stores of
             Inl e \<Rightarrow> Inl ValueError
           | Inr store_scores \<Rightarrow>
               Inr (map fst (take 5 (sort_key (\<lambda>x. - snd x) store_scores))))"

definition get_optimal_locations ::
  "DataService \<Rightarrow> performance_model \<Rightarrow> AreaRequest \<Rightarrow> error + StoreLocation list" where
  "get_optimal_locations ds model area =
     optimal_of_stores ds model
       (get_stores_in_area ds (area_lat area) (area_lng area) (radius area))"

subsection \<open>Heatmap\<close>

definition get_color_for_score :: "real \<Rightarrow> string" where
  "get_color_for_score sc =
     (if sc \<ge> 0.8 then ''#10b981''
      else if sc \<ge> 0.6 then ''#3b82f6''
      else if sc \<ge> 0.4 then ''#f59e0b''
      else ''#ef4444'')"

text \<open>\<open>str\<close> of an integer, for the point identifiers.\<close>

fun str_nat :: "nat \<Rightarrow> string" where
  "str_nat n =
     (if n < 10 then [char_of (48 + n)]
      else str_nat (n div 10) @ [char_of (48 + n mod 10)])"

declare str_nat.simps [simp del]

definition str_int :: "int \<Rightarrow> string" where
  "str_int i = (if i < 0 then ''-'' @ str_nat (nat (- i)) else str_nat (nat i))"

text \<open>
  \<open>numpy.random.uniform(low, high)\<close> is \<open>low + (high - low) * u\<close>
  for the next sample \<open>u\<close> of the generator, which lies in \<open>[0,
  1)\<close>. The generator is the sequence \<open>rng\<close> of the samples it will
  produce from its current state; the grid loop draws one sample per point, so the point
  \<open>(i, j)\<close> gets the sample number \<open>10 * i + j\<close>.

  The coordinates of a grid point are computed in double precision, and a rectangle may be
  only a few representable numbers wide, so the rounding is written out there:
  \<open>fl\<close> maps the exact result of an operation to the double that the operation
  returns. \<open>i + 0.5\<close> is exact, and so is the divisor 10.
\<close>

definition random_uniform :: "real \<Rightarrow> real \<Rightarrow> real \<Rightarrow> real" where
  "random_uniform low high u = low + (high - low) * u"

definition grid_point ::
  "(real \<Rightarrow> real) \<Rightarrow> MapBounds \<Rightarrow> (nat \<Rightarrow> real) \<Rightarrow> nat \<Rightarrow> nat \<Rightarrow> error + MapPoint" where
  "grid_point fl bounds rng i j =
     (let n_lat = 10;
          n_lng = 10;
          lat_step = fl (fl (north bounds - south bounds) / n_lat);
          lng_step = fl (fl (east bounds - west bounds) / n_lng);
          lat1 = fl (south bounds + fl ((real i + 0.5) * lat_step));
          lng1 = fl (west bounds + fl ((real j + 0.5) * lng_step));
          sc = random_uniform 0.3 0.9 (rng (10 * i + j));
          col = get_color_for_score sc
      in MapPoint_init
           \<lparr>point_id = ''grid_'' @ str_nat i @ ''_'' @ str_nat j,
            lat = lat1, lng = lng1, point_score = sc, color = col\<rparr>)"

definition generate_grid_points ::
  "(real \<Rightarrow> real) \<Rightarrow> MapBounds \<Rightarrow> (nat \<Rightarrow> real) \<Rightarrow> error + MapPoint list" where
  "generate_grid_points fl bounds rng =
     collect (concat (map (\<lambda>i. map (\<lambda>j. grid_point fl bounds rng i j) [0..<10]) [0..<10]))"

text \<open>One iteration of the loop over the existing stores; \<open>store.tiendaId or i\<close>.\<close>

definition store_point ::
  "DataService \<Rightarrow> performance_model \<Rightarrow> nat \<times> StoreLocation \<Rightarrow> error + MapPoint" where
  "store_point ds model ix =
     (case ix of (i, store) \<Rightarrow>
        (case predict_location ds model store of
           Inl e \<Rightarrow> Inl e
         | Inr prediction \<Rightarrow>
             (let col = get_color_for_score (score prediction);
                  ident = (case tiendaId store of
                             None \<Rightarrow> int i
                           | Some t \<Rightarrow> if t \<noteq> 0 then t else int i)
              in MapPoint_init
                   \<lparr>point_id = ''store_'' @ str_int ident,
                    lat = latitud store, lng = longitud store,
                    point_score = score prediction, color = col\<rparr>)))"

definition generate_heatmap ::
  "DataService \<Rightarrow> performance_model \<Rightarrow> (real \<Rightarrow> real) \<Rightarrow> (nat \<Rightarrow> real) \<Rightarrow> MapBounds
     \<Rightarrow> error + HeatmapData" where
  "generate_heatmap ds model fl rng bounds =
     (let center_lat = (north bounds + south bounds) / 2;
          center_lng = (east bounds + west bounds) / 2;
          lat_radius = (north bounds - south bounds) * 111 / 2;
          lng_radius = (east bounds - west bounds) * 111 / 2;
          radius_km = max lat_radius lng_radius * 1.5;
          existing_stores = get_stores_in_area ds center_lat center_lng radius_km;
          pts = (if existing_stores = [] then generate_grid_points fl bounds rng
                 else collect (map (store_point ds model) (enumerate 0 existing_stores)))
      in case pts of
           Inl e \<Rightarrow> Inl ValueError
         | Inr ps \<Rightarrow>
             (case HeatmapData_init
                     \<lparr>points = ps, centerLat = center_lat, centerLng = center_lng\<rparr> of
                Inl e \<Rightarrow> Inl ValueError
              | Inr heatmap_data \<Rightarrow> Inr heatmap_data))"

section \<open>Auxiliary definitions for the statements\<close>

text \<open>
  What the encoder puts under a column name: the location's own columns (the six numeric
  ones and the indicator of each of its three category values) with their values, and 0
  under every other name.
\<close>

definition location_frame :: "StoreLocation \<Rightarrow> frame" where
  "location_frame location =
     [(''plazaCve'', real_of_int (plazaCve location)),
      (''mts2Ventas'', mts2Ventas location),
      (''puertasRefrig'', real_of_int (puertasRefrig location)),
      (''cajonesEstacionamiento'', real_of_int (cajonesEstacionamiento location)),
      (''latitud'', latitud location),
      (''longitud'', longitud location),
      (''nivelSocioeconomico_'' @ nivelSocioeconomico location, 1),
      (''entorno_'' @ entorno location, 1),
      (''segmentoMaestro_'' @ segmentoMaestro location, 1)]"

definition feature_value :: "StoreLocation \<Rightarrow> string \<Rightarrow> real" where
  "feature_value location col =
     (case map_of (location_frame location) col of None \<Rightarrow> 0 | Some v \<Rightarrow> v)"

text \<open>
  Example data: the location of the model's schema example, and a service with no stores,
  an empty training frame and two sales targets.
\<close>

definition example_location :: StoreLocation where
  "example_location =
     \<lparr>tiendaId = None, plazaCve = 1, nivelSocioeconomico = ''C'', entorno = ''Hogar'',
      mts2Ventas = 100.0, puertasRefrig = 12, cajonesEstacionamiento = 0,
      latitud = 25.67, longitud = - 100.22, segmentoMaestro = Clasico\<rparr>"

definition example_service :: DataService where
  "example_service =
     \<lparr>stores_df = [], test_stores_df = [], combined_df = [],
      segmento_read_as_object = True,
      sales_target_df = [(''Base'', 450000), (''Hogar'', 480000)]\<rparr>"

definition example_features :: frame where
  "example_features =
     map (\<lambda>col. (col, feature_value example_location col))
       (get_training_data_columns example_service)"

definition example_response :: PredictionResponse where
  "example_response =
     \<lparr>score = 8 / 15, expectedSales = 384000, probability = 1 / 2,
      recommendation = Moderado 384000 ''Hogar'' (1 / 2)\<rparr>"

text \<open>
  The three closed enumerations, as the validators and the encoder list them.
\<close>

definition nivel_cats :: "string list" where
  "nivel_cats = [''A'', ''AB'', ''B'', ''BC'', ''C'', ''CD'', ''D'']"

definition entorno_cats :: "string list" where
  "entorno_cats = [''Base'', ''Hogar'', ''Peatonal'', ''Receso'']"

definition segmento_cats :: "string list" where
  "segmento_cats = [''Barrio Competido'', Clasico, Hogar_Reunion, ''Oficinistas'', Parada_Tecnica]"

text \<open>
  Example training frames: \<open>service_AB\<close>, \<open>service_AC\<close> and
  \<open>service_BA\<close> differ from the example service in the rows of the merged
  frame only.
\<close>

definition training_row :: "string \<Rightarrow> string \<Rightarrow> string \<Rightarrow> DIM_TIENDA" where
  "training_row nivel ent seg =
     \<lparr>TIENDA_ID = 1, PLAZA_CVE = 1, NIVELSOCIOECONOMICO_DES = nivel, ENTORNO_DES = ent,
      MTS2VENTAS_NUM = 100.0, PUERTASREFRIG_NUM = 12, CAJONESESTACIONAMIENTO_NUM = 0,
      LATITUD_NUM = 25.67, LONGITUD_NUM = - 100.22, SEGMENTO_MAESTRO_DESC = Some seg\<rparr>"







text \<open>
  A store table with one proper row and one row whose environment is outside the
  enumeration, both at the centre of the example area.
\<close>

definition industrial_row :: DIM_TIENDA where
  "industrial_row = training_row ''C'' ''Industrial'' Clasico\<lparr>TIENDA_ID := 2\<rparr>"

definition industrial_service :: DataService where
  "industrial_service = example_service
     \<lparr>stores_df := [training_row ''C'' ''Hogar'' Clasico, industrial_row]\<rparr>"

definition example_area :: AreaRequest where
  "example_area = \<lparr>area_lat = 25.67, area_lng = - 100.22, radius = 5.0\<rparr>"


text \<open>
  The score that \<open>get_optimal_locations\<close> attaches to a store: the score of
  its prediction.
\<close>

definition store_score :: "DataService \<Rightarrow> performance_model \<Rightarrow> StoreLocation \<Rightarrow> real" where
  "store_score ds model store =
     (case predict_location ds model store of Inl e \<Rightarrow> 0 | Inr prediction \<Rightarrow> score prediction)"

text \<open>
  An example model whose ratio is the sales area divided by 100, and seven stores, three
  of them with the same area and hence the same score.
\<close>

definition example_model :: performance_model where
  "example_model X = Inr (case map_of X ''mts2Ventas'' of None \<Rightarrow> 0 | Some v \<Rightarrow> v / 100)"

definition store_a :: StoreLocation where
  "store_a = example_location\<lparr>tiendaId := Some 1, mts2Ventas := 60\<rparr>"

definition store_b :: StoreLocation where
  "store_b = example_location\<lparr>tiendaId := Some 2, mts2Ventas := 120\<rparr>"

definition store_c :: StoreLocation where
  "store_c = example_location\<lparr>tiendaId := Some 3, mts2Ventas := 60\<rparr>"

definition store_d :: StoreLocation where
  "store_d = example_location\<lparr>tiendaId := Some 4, mts2Ventas := 90\<rparr>"

definition store_e :: StoreLocation where
  "store_e = example_location\<lparr>tiendaId := Some 5, mts2Ventas := 30\<rparr>"

definition store_f :: StoreLocation where
  "store_f = example_location\<lparr>tiendaId := Some 6, mts2Ventas := 150\<rparr>"

definition store_g :: StoreLocation where
  "store_g = example_location\<lparr>tiendaId := Some 7, mts2Ventas := 60\<rparr>"


text \<open>
  What is assumed of the rounding \<open>fl\<close> of double arithmetic: it is monotone,
  it leaves 0 alone, and on the range of the coordinates it exceeds the exact value by at
  most a relative error \<open>e\<close> plus an absolute error \<open>t\<close> (for
  IEEE doubles rounded to nearest, \<open>e\<close> is 2 to the power -53 and
  \<open>t\<close>, which only matters when the result is denormal, is 2 to the power
  -1075). Exact arithmetic satisfies it with \<open>e = 0\<close> and \<open>t = 0\<close>.
\<close>

definition rounding :: "(real \<Rightarrow> real) \<Rightarrow> real \<Rightarrow> real \<Rightarrow> bool" where
  "rounding fl e t =
     (0 \<le> e \<and> e \<le> 1 / 1000 \<and> 0 \<le> t \<and> fl 0 = 0
      \<and> (\<forall>x y. x \<le> y \<longrightarrow> fl x \<le> fl y)
      \<and> (\<forall>x. 0 \<le> x \<and> x \<le> 1000 \<longrightarrow> fl x \<le> x * (1 + e) + t))"

text \<open>
  The four bounds are doubles, so rounding leaves them alone.
\<close>

definition representable :: "(real \<Rightarrow> real) \<Rightarrow> MapBounds \<Rightarrow> bool" where
  "representable fl bounds =
     (fl (north bounds) = north bounds \<and> fl (south bounds) = south bounds
      \<and> fl (east bounds) = east bounds \<and> fl (west bounds) = west bounds)"

text \<open>
  The coordinates of the point of the fallback grid in row \<open>i\<close> and column
  \<open>j\<close>, written out.
\<close>

definition grid_lat :: "(real \<Rightarrow> real) \<Rightarrow> MapBounds \<Rightarrow> nat \<Rightarrow> real" where
  "grid_lat fl bounds i =
     fl (south bounds + fl ((real i + 0.5) * fl (fl (north bounds - south bounds) / 10)))"

definition grid_lng :: "(real \<Rightarrow> real) \<Rightarrow> MapBounds \<Rightarrow> nat \<Rightarrow> real" where
  "grid_lng fl bounds j =
     fl (west bounds + fl ((real j + 0.5) * fl (fl (east bounds - west bounds) / 10)))"

definition fabricated_point ::
  "(real \<Rightarrow> real) \<Rightarrow> MapBounds \<Rightarrow> (nat \<Rightarrow> real) \<Rightarrow> nat \<Rightarrow> nat \<Rightarrow> MapPoint" where
  "fabricated_point fl bounds rng i j =
     \<lparr>point_id = ''grid_'' @ str_nat i @ ''_'' @ str_nat j,
      lat = grid_lat fl bounds i,
      lng = grid_lng fl bounds j,
      point_score = random_uniform 0.3 0.9 (rng (10 * i + j)),
      color = get_color_for_score (random_uniform 0.3 0.9 (rng (10 * i + j)))\<rparr>"

text \<open>
  A rounding that is not the identity, for the examples: rounding to the nearest multiple of
  1/1024.
\<close>

definition round_1024 :: "real \<Rightarrow> real" where
  "round_1024 x = of_int (round (x * 1024)) / 1024"

text \<open>
  A service with a single store that lies 0.05 degrees north of the rectangle
  \<open>unit_bounds\<close>, on the meridian of its centre, and the location made from
  that store's row.
\<close>

definition outside_row :: DIM_TIENDA where
  "outside_row =
     \<lparr>TIENDA_ID = 7, PLAZA_CVE = 1, NIVELSOCIOECONOMICO_DES = ''C'', ENTORNO_DES = ''Hogar'',
      MTS2VENTAS_NUM = 100.0, PUERTASREFRIG_NUM = 12, CAJONESESTACIONAMIENTO_NUM = 0,
      LATITUD_NUM = 26.05, LONGITUD_NUM = - 100.5, SEGMENTO_MAESTRO_DESC = Some Clasico\<rparr>"

definition outside_service :: DataService where
  "outside_service = example_service\<lparr>stores_df := [outside_row]\<rparr>"

definition unit_bounds :: MapBounds where
  "unit_bounds = \<lparr>north = 26, south = 25, east = - 100, west = - 101\<rparr>"

definition outside_store :: StoreLocation where
  "outside_store =
     \<lparr>tiendaId = Some 7, plazaCve = 1, nivelSocioeconomico = ''C'', entorno = ''Hogar'',
      mts2Ventas = 100.0, puertasRefrig = 12, cajonesEstacionamiento = 0,
      latitud = 26.05, longitud = - 100.5, segmentoMaestro = Clasico\<rparr>"

section \<open>Properties\<close>

subsection \<open>Encoder and scorer: helper lemmas\<close>

lemma score_of_ratio_range: "0 \<le> score_of_ratio r \<and> score_of_ratio r \<le> 1"
  by (simp add: score_of_ratio_def min_def max_def)

lemma success_probability_range:
  "0 \<le> calculate_success_probability r \<and> calculate_success_probability r \<le> 1"
  by (simp add: calculate_success_probability_def min_def max_def Let_def)

lemma map_of_add_zero_columns:
  "map_of (add_zero_columns cols X) c =
     (case map_of X c of Some v \<Rightarrow> Some v | None \<Rightarrow> if c \<in> set cols then Some 0 else None)"
proof (induction cols arbitrary: X)
  case Nil
  then show ?case by (simp split: option.splits)
next
  case (Cons a cols)
  then show ?case 
    by (auto simp: map_of_eq_None_iff[symmetric] split: option.splits)
qed

lemma select_columns_total:
  "\<forall>c \<in> set cols. map_of X c \<noteq> None \<Longrightarrow>
   select_columns X cols = Inr (map (\<lambda>c. (c, the (map_of X c))) cols)"
  by (induction cols) auto

lemma map_of_append_case:
  "map_of (xs @ ys) c = (case map_of xs c of Some v \<Rightarrow> Some v | None \<Rightarrow> map_of ys c)"
  by (simp add: map_add_def split: option.splits)

lemma add_zero_columns_lookup:
  "c \<in> set cols \<Longrightarrow>
   map_of (add_zero_columns cols X) c = Some (case map_of X c of None \<Rightarrow> 0 | Some v \<Rightarrow> v)"
  by (simp add: map_of_add_zero_columns split: option.splits)

lemma map_of_dummies:
  "map_of (add_zero_columns cols (get_dummies_value pfx v)) c =
     (if c = pfx @ ''_'' @ v then Some 1 else if c \<in> set cols then Some 0 else None)"
  by (simp add: map_of_add_zero_columns get_dummies_value_def)

lemma frame_lookup:
  assumes "\<And>c. c \<in> set ncols \<Longrightarrow> c \<noteq> ek \<and> c \<noteq> sk"
    and "\<And>c. c \<in> set ecols \<Longrightarrow> c \<noteq> sk"
    and nd: "\<And>c. map_of nd c = (if c = nk then Some 1 else if c \<in> set ncols then Some 0 else None)"
    and ed: "\<And>c. map_of ed c = (if c = ek then Some 1 else if c \<in> set ecols then Some 0 else None)"
    and sd: "\<And>c. map_of sd c = (if c = sk then Some 1 else if c \<in> set scols then Some 0 else None)"
  shows "(case map_of (X0 @ nd @ ed @ sd) c of None \<Rightarrow> 0 | Some v \<Rightarrow> v) =
         (case map_of (X0 @ [(nk, 1::real), (ek, 1), (sk, 1)]) c of None \<Rightarrow> 0 | Some v \<Rightarrow> v)"
  using assms(1)[of c] assms(2)[of c]
  unfolding map_of_append_case nd ed sd
  by (auto split: option.splits)

lemma store_location_to_features_eq:
  "store_location_to_features ds location =
     Inr (map (\<lambda>col. (col, feature_value location col)) (get_training_data_columns ds))"
proof -
  define fo where "fo = get_training_data_columns ds"
  define X0 where "X0 = [(''plazaCve'', real_of_int (plazaCve location)),
                (''mts2Ventas'', mts2Ventas location),
                (''puertasRefrig'', real_of_int (puertasRefrig location)),
                (''cajonesEstacionamiento'', real_of_int (cajonesEstacionamiento location)),
                (''latitud'', latitud location),
                (''longitud'', longitud location)]"
  define ncats where "ncats = [''A'', ''AB'', ''B'', ''BC'', ''C'', ''CD'', ''D'']"
  define ecats where "ecats = [''Base'', ''Hogar'', ''Peatonal'', ''Receso'']"
  define scats where "scats = [''Barrio Competido'', Clasico, Hogar_Reunion, ''Oficinistas'', Parada_Tecnica]"
  define nd where "nd = add_zero_columns (map (\<lambda>cat. ''nivelSocioeconomico_'' @ cat) ncats)
              (get_dummies_value ''nivelSocioeconomico'' (nivelSocioeconomico location))"
  define ed where "ed = add_zero_columns (map (\<lambda>cat. ''entorno_'' @ cat) ecats)
              (get_dummies_value ''entorno'' (entorno location))"
  define sd where "sd = add_zero_columns (map (\<lambda>cat. ''segmentoMaestro_'' @ cat) scats)
              (get_dummies_value ''segmentoMaestro'' (segmentoMaestro location))"
  define X2 where "X2 = add_zero_columns fo (X0 @ nd @ ed @ sd)"
  have unfolded: "store_location_to_features ds location =
      (case select_columns X2 fo of Inl e \<Rightarrow> Inl ValueError | Inr X \<Rightarrow> Inr X)"
    unfolding store_location_to_features_def Let_def X2_def fo_def X0_def nd_def ed_def sd_def
      ncats_def ecats_def scats_def ..
  have val: "(case map_of (X0 @ nd @ ed @ sd) c of None \<Rightarrow> 0 | Some v \<Rightarrow> v)
             = feature_value location c" for c
  proof -
    have "(case map_of (X0 @ nd @ ed @ sd) c of None \<Rightarrow> 0 | Some v \<Rightarrow> v) =
      (case map_of (X0 @ [(''nivelSocioeconomico_'' @ nivelSocioeconomico location, 1::real),
         (''entorno_'' @ entorno location, 1), (''segmentoMaestro_'' @ segmentoMaestro location, 1)]) c
       of None \<Rightarrow> 0 | Some v \<Rightarrow> v)"
    proof (rule frame_lookup)
      show "map_of nd c = (if c = ''nivelSocioeconomico_'' @ nivelSocioeconomico location then Some 1
          else if c \<in> set (map (\<lambda>cat. ''nivelSocioeconomico_'' @ cat) ncats) then Some 0 else None)" for c
        unfolding nd_def map_of_dummies by simp
      show "map_of ed c = (if c = ''entorno_'' @ entorno location then Some 1
          else if c \<in> set (map (\<lambda>cat. ''entorno_'' @ cat) ecats) then Some 0 else None)" for c
        unfolding ed_def map_of_dummies by simp
      show "map_of sd c = (if c = ''segmentoMaestro_'' @ segmentoMaestro location then Some 1
          else if c \<in> set (map (\<lambda>cat. ''segmentoMaestro_'' @ cat) scats) then Some 0 else None)" for c
        unfolding sd_def map_of_dummies by simp
      show "c \<noteq> ''entorno_'' @ entorno location \<and> c \<noteq> ''segmentoMaestro_'' @ segmentoMaestro location"
        if "c \<in> set (map (\<lambda>cat. ''nivelSocioeconomico_'' @ cat) ncats)" for c
        using that by auto
      show "c \<noteq> ''segmentoMaestro_'' @ segmentoMaestro location"
        if "c \<in> set (map (\<lambda>cat. ''entorno_'' @ cat) ecats)" for c
        using that by auto
    qed
    then show ?thesis
      by (simp add: feature_value_def location_frame_def X0_def)
  qed
  have X2: "map_of X2 c = Some (feature_value location c)" if "c \<in> set fo" for c
    unfolding X2_def by (simp only: add_zero_columns_lookup[OF that] val)
  have "select_columns X2 fo = Inr (map (\<lambda>c. (c, the (map_of X2 c))) fo)"
    by (rule select_columns_total) (simp add: X2)
  also have "map (\<lambda>c. (c, the (map_of X2 c))) fo = map (\<lambda>c. (c, feature_value location c)) fo"
    by (rule map_cong[OF refl]) (simp add: X2)
  finally have "select_columns X2 fo = Inr (map (\<lambda>c. (c, feature_value location c)) fo)" .
  then show ?thesis
    unfolding unfolded fo_def by simp
qed

lemma predict_location_eq:
  assumes "store_location_to_features ds location = Inr X" and "model X = Inr r"
  shows "predict_location ds model location =
     (let es = expected_sales_of (get_sales_target_for_environment ds (entorno location)) r
      in if 0 \<le> es
         then Inr \<lparr>score = score_of_ratio r, expectedSales = es,
                   probability = calculate_success_probability r,
                   recommendation =
                     generate_recommendation (score_of_ratio r) es
                       (calculate_success_probability r) location\<rparr>
         else Inl ValueError)"
  using assms score_of_ratio_range[of r] success_probability_range[of r]
  by (simp add: predict_location_def PredictionResponse_init_def Let_def)

lemma example_target: "get_sales_target_for_environment example_service ''Hogar'' = Some 480000"
  by (simp add: get_sales_target_for_environment_def example_service_def)

lemma example_prediction:
  "predict_location example_service (\<lambda>X. Inr (8 / 10)) example_location = Inr example_response"
proof -
  have e: "entorno example_location = ''Hogar''" by (simp add: example_location_def)
  have s: "score_of_ratio (8 / 10) = 8 / 15" by (simp add: score_of_ratio_def)
  have p: "calculate_success_probability (8 / 10) = 1 / 2"
    by (simp add: calculate_success_probability_def Let_def)
  show ?thesis
    unfolding predict_location_eq[OF store_location_to_features_eq refl] e example_target s p
    by (simp add: expected_sales_of_def generate_recommendation_def example_response_def e)
qed

lemma collect_map_Inr: "collect (map Inr vs) = Inr vs"
  by (induction vs) simp_all

lemma collect_Inr_D: "collect rs = Inr vs \<Longrightarrow> rs = map Inr vs"
proof (induction rs arbitrary: vs)
  case Nil
  then show ?case by simp
next
  case (Cons r rs)
  then show ?case by (auto split: sum.splits)
qed

lemma collect_eq_Inr: "collect rs = Inr vs \<longleftrightarrow> rs = map Inr vs"
  using collect_map_Inr collect_Inr_D by blast

lemma collect_Inr_or_Inl: "\<forall>r \<in> set rs. is_ok r \<Longrightarrow> \<exists>vs. collect rs = Inr vs"
  by (induction rs) (auto simp: is_ok_def split: sum.splits)

lemma collect_Inl_mem:
  assumes "Inl e \<in> set rs"
  obtains e' where "collect rs = Inl e'"
proof (cases "collect rs")
  case (Inl e')
  then show ?thesis by (rule that)
next
  case (Inr vs)
  from collect_Inr_D[OF this] assms show ?thesis by auto
qed

subsection \<open>Scorer (claims C1, C2, C4, C9)\<close>



text \<open>
  Claim C2. The success probability is the logistic value \<open>1 / (1 + exp (- 5 *
  (ratio - 0.8)))\<close> clamped to \<open>[0, 1]\<close> for a positive ratio and 0
  otherwise; it is exactly 0.5 at ratio 0.8 and 0 at ratio 0; and it is the probability of
  the response that \<open>predict_location\<close> returns.
\<close>

theorem success_probability_is_sigmoid:
  "calculate_success_probability r =
     (if r > 0 then min (max (1 / (1 + exp (- 5 * (r - 0.8)))) 0) 1 else 0)
   \<and> calculate_success_probability 0.8 = 0.5
   \<and> calculate_success_probability 0 = 0
   \<and> (store_location_to_features ds location = Inr X \<and> model X = Inr r
        \<and> predict_location ds model location = Inr response
       \<longrightarrow> probability response = calculate_success_probability r)"
proof (intro conjI impI)
  show "calculate_success_probability r =
     (if r > 0 then min (max (1 / (1 + exp (- 5 * (r - 0.8)))) 0) 1 else 0)"
    by (simp add: calculate_success_probability_def Let_def)
  show "calculate_success_probability 0.8 = 0.5"
    by (simp add: calculate_success_probability_def Let_def)
  show "calculate_success_probability 0 = 0"
    by (simp add: calculate_success_probability_def)
  show "probability response = calculate_success_probability r"
    if "store_location_to_features ds location = Inr X \<and> model X = Inr r
        \<and> predict_location ds model location = Inr response"
  proof -
    from that have f: "store_location_to_features ds location = Inr X"
      and m: "model X = Inr r"
      and p: "predict_location ds model location = Inr response" by simp_all
    show ?thesis
      using p unfolding predict_location_eq[of ds location X model r, OF f m]
      by (auto simp: Let_def split: if_splits)
  qed
qed

text \<open>The statement at ratio 0.8, on the example location.\<close>

theorem success_probability_is_sigmoid_witness:
  "calculate_success_probability (8 / 10) = 1 / 2
   \<and> calculate_success_probability 0 = 0
   \<and> store_location_to_features example_service example_location = Inr example_features
   \<and> predict_location example_service (\<lambda>X. Inr (8 / 10)) example_location = Inr example_response
   \<and> probability example_response = 1 / 2"
  using success_probability_is_sigmoid[of "8 / 10" example_service example_location
      example_features "\<lambda>X. Inr (8 / 10)" example_response]
    store_location_to_features_eq[of example_service example_location]
    example_prediction
  by (simp add: example_features_def)

text \<open>
  Claim C4 as stated fails: with the target 480000 configured for \<open>Hogar\<close> and
  the predicted ratio \<open>- 1 / 2\<close>, \<open>predict_location\<close> returns no
  response at all.
\<close>

theorem expected_sales_negative_counterexample:
  "get_sales_target_for_environment example_service (entorno example_location) = Some 480000
   \<and> store_location_to_features example_service example_location = Inr example_features
   \<and> predict_location example_service (\<lambda>X. Inr (- 1 / 2)) example_location = Inl ValueError"
proof -
  have e: "entorno example_location = ''Hogar''" by (simp add: example_location_def)
  have "predict_location example_service (\<lambda>X. Inr (- 1 / 2)) example_location = Inl ValueError"
    unfolding predict_location_eq[OF store_location_to_features_eq refl] e example_target
    by (simp add: expected_sales_of_def)
  then show ?thesis
    using store_location_to_features_eq[of example_service example_location]
    by (simp add: e example_target example_features_def)
qed

text \<open>
  Claim C4, amended. For every location and every predicted ratio: with no target
  configured for the environment, \<open>predict_location\<close> returns a response with
  expected sales 0; with a target configured and \<open>target * ratio\<close> not
  negative, it returns a response with expected sales \<open>target * ratio\<close>; with
  \<open>target * ratio\<close> negative it raises.
\<close>

theorem expected_sales_from_target:
  assumes "store_location_to_features ds location = Inr X" and "model X = Inr ratio"
  shows "case get_sales_target_for_environment ds (entorno location) of
           None \<Rightarrow>
             \<exists>response. predict_location ds model location = Inr response
                \<and> expectedSales response = 0
         | Some target \<Rightarrow>
             if 0 \<le> target * ratio
             then \<exists>response. predict_location ds model location = Inr response
                    \<and> expectedSales response = target * ratio
             else predict_location ds model location = Inl ValueError"
  unfolding predict_location_eq[of ds location X model ratio, OF assms]
  by (simp add: expected_sales_of_def Let_def split: option.splits)

text \<open>
  The statement on the example location: with the target of \<open>Hogar\<close>, and with
  no target configured for \<open>Hogar\<close>.
\<close>

theorem expected_sales_from_target_witness:
  "store_location_to_features example_service example_location = Inr example_features
   \<and> get_sales_target_for_environment example_service (entorno example_location) = Some 480000
   \<and> predict_location example_service (\<lambda>X. Inr (8 / 10)) example_location = Inr example_response
   \<and> expectedSales example_response = 480000 * (8 / 10)
   \<and> get_sales_target_for_environment (example_service\<lparr>sales_target_df := [(''Base'', 450000)]\<rparr>)
        (entorno example_location) = None
   \<and> is_ok (predict_location (example_service\<lparr>sales_target_df := [(''Base'', 450000)]\<rparr>)
        (\<lambda>X. Inr (8 / 10)) example_location)"
proof -
  have f: "store_location_to_features example_service example_location = Inr example_features"
    using store_location_to_features_eq[of example_service example_location]
    by (simp add: example_features_def)
  have e: "entorno example_location = ''Hogar''" by (simp add: example_location_def)
  have n: "get_sales_target_for_environment (example_service\<lparr>sales_target_df := [(''Base'', 450000)]\<rparr>)
        (entorno example_location) = None"
    by (simp add: get_sales_target_for_environment_def e)
  have "is_ok (predict_location (example_service\<lparr>sales_target_df := [(''Base'', 450000)]\<rparr>)
        (\<lambda>X. Inr (8 / 10)) example_location)"
    using expected_sales_from_target[of "example_service\<lparr>sales_target_df := [(''Base'', 450000)]\<rparr>"
        example_location _ "\<lambda>X. Inr (8 / 10)" "8 / 10",
        OF store_location_to_features_eq refl]
    unfolding n by (auto simp: is_ok_def)
  moreover have "expectedSales example_response = 480000 * (8 / 10)"
    using expected_sales_from_target[of example_service example_location example_features
        "\<lambda>X. Inr (8 / 10)" "8 / 10", OF f refl] example_prediction
    by (simp add: e example_target)
  ultimately show ?thesis
    using f n example_prediction by (simp add: e example_target)
qed

text \<open>
  Claim C9. A response returned by \<open>predict_location\<close> never has negative
  expected sales; with a positive target configured for the environment and a negative
  predicted ratio, \<open>predict_location\<close> raises instead of returning.
\<close>

theorem negative_expected_sales_rejected:
  "(predict_location ds model location = Inr response \<longrightarrow> 0 \<le> expectedSales response)
   \<and> (store_location_to_features ds location = Inr X \<and> model X = Inr ratio
        \<and> get_sales_target_for_environment ds (entorno location) = Some target
        \<and> 0 < target \<and> ratio < 0
       \<longrightarrow> predict_location ds model location = Inl ValueError)"
proof (intro conjI impI)
  show "0 \<le> expectedSales response" if "predict_location ds model location = Inr response"
    using that
    by (auto simp: predict_location_def PredictionResponse_init_def Let_def
        split: sum.splits if_splits)
  show "predict_location ds model location = Inl ValueError"
    if h: "store_location_to_features ds location = Inr X \<and> model X = Inr ratio
        \<and> get_sales_target_for_environment ds (entorno location) = Some target
        \<and> 0 < target \<and> ratio < 0"
  proof -
    from h have "target * ratio < 0" by (simp add: mult_pos_neg)
    then show ?thesis
      using h unfolding predict_location_eq[of ds location X model ratio, OF h[THEN conjunct1] h[THEN conjunct2, THEN conjunct1]]
      by (simp add: expected_sales_of_def)
  qed
qed

text \<open>The statement on the example location, at the ratios 0.8 and \<open>- 1 / 2\<close>.\<close>

theorem negative_expected_sales_rejected_witness:
  "predict_location example_service (\<lambda>X. Inr (8 / 10)) example_location = Inr example_response
   \<and> 0 \<le> expectedSales example_response
   \<and> store_location_to_features example_service example_location = Inr example_features
   \<and> get_sales_target_for_environment example_service (entorno example_location) = Some 480000
   \<and> predict_location example_service (\<lambda>X. Inr (- 1 / 2)) example_location = Inl ValueError"
proof -
  have f: "store_location_to_features example_service example_location = Inr example_features"
    using store_location_to_features_eq[of example_service example_location]
    by (simp add: example_features_def)
  have e: "entorno example_location = ''Hogar''" by (simp add: example_location_def)
  have "predict_location example_service (\<lambda>X. Inr (- 1 / 2)) example_location = Inl ValueError"
    using negative_expected_sales_rejected[of example_service "\<lambda>X. Inr (- 1 / 2)"
        example_location undefined example_features "- 1 / 2" 480000] f
    by (simp add: e example_target)
  moreover have "0 \<le> expectedSales example_response"
    using negative_expected_sales_rejected[of example_service "\<lambda>X. Inr (8 / 10)"
        example_location example_response] example_prediction
    by simp
  ultimately show ?thesis
    using f example_prediction by (simp add: e example_target)
qed

subsection \<open>Feature encoder (claims C3, C6, C7)\<close>











lemma StoreLocation_init_unknown:
  assumes "nivelSocioeconomico d \<notin> set nivel_cats
           \<or> entorno d \<notin> set entorno_cats
           \<or> segmentoMaestro d \<notin> set segmento_cats"
  shows "StoreLocation_init d = Inl ValidationError"
proof -
  have "\<not> (is_ok (validate_nivel_socioeconomico (nivelSocioeconomico d))
            \<and> is_ok (validate_entorno (entorno d))
            \<and> is_ok (validate_segmento_maestro (segmentoMaestro d)))"
    using assms
    unfolding validate_nivel_socioeconomico_def validate_entorno_def
      validate_segmento_maestro_def Let_def nivel_cats_def entorno_cats_def segmento_cats_def
      is_ok_def
    by (auto split: if_splits)
  then show ?thesis
    unfolding StoreLocation_init_def by auto
qed

lemma StoreLocation_init_Inr:
  assumes "StoreLocation_init d = Inr location"
  shows "location = d" and "nivelSocioeconomico d \<in> set nivel_cats"
    and "entorno d \<in> set entorno_cats" and "segmentoMaestro d \<in> set segmento_cats"
proof -
  show "location = d"
    using assms by (simp add: StoreLocation_init_def split: if_splits)
  show "nivelSocioeconomico d \<in> set nivel_cats"
    and "entorno d \<in> set entorno_cats" and "segmentoMaestro d \<in> set segmento_cats"
    using StoreLocation_init_unknown[of d] assms by auto
qed

lemma row_to_StoreLocation_unknown:
  assumes "NIVELSOCIOECONOMICO_DES row \<notin> set nivel_cats
           \<or> ENTORNO_DES row \<notin> set entorno_cats
           \<or> SEGMENTO_MAESTRO_DESC row \<notin> Some ` set segmento_cats"
  shows "row_to_StoreLocation row = Inl ValidationError"
proof (cases "SEGMENTO_MAESTRO_DESC row")
  case None
  then show ?thesis by (simp add: row_to_StoreLocation_def)
next
  case (Some seg)
  with assms show ?thesis
    unfolding row_to_StoreLocation_def
    by (simp add: StoreLocation_init_unknown image_iff)
qed

lemma row_to_StoreLocation_Inr:
  assumes "row_to_StoreLocation row = Inr location"
  shows "nivelSocioeconomico location \<in> set nivel_cats
         \<and> entorno location \<in> set entorno_cats
         \<and> segmentoMaestro location \<in> set segmento_cats"
proof (cases "SEGMENTO_MAESTRO_DESC row")
  case None
  with assms show ?thesis by (simp add: row_to_StoreLocation_def)
next
  case (Some seg)
  with assms StoreLocation_init_Inr[OF assms[unfolded row_to_StoreLocation_def Some option.case]]
  show ?thesis by simp
qed

lemma get_stores_in_area_swallows:
  assumes "row \<in> set (stores_df ds @ test_stores_df ds)"
    and "distance_km lat0 lng0 row \<le> radius_km"
    and "row_to_StoreLocation row = Inl e"
  shows "get_stores_in_area ds lat0 lng0 radius_km = []"
proof -
  define sorted_df where "sorted_df = sort_key (distance_km lat0 lng0)
     (filter (\<lambda>row. distance_km lat0 lng0 row \<le> radius_km) (stores_df ds @ test_stores_df ds))"
  have "row \<in> set sorted_df"
    unfolding sorted_df_def using assms(1,2) by simp
  then have "Inl e \<in> set (map row_to_StoreLocation sorted_df)"
    using assms(3) by force
  then obtain e' where "collect (map row_to_StoreLocation sorted_df) = Inl e'"
    by (rule collect_Inl_mem)
  then show ?thesis
    unfolding get_stores_in_area_def Let_def sorted_df_def[symmetric] by simp
qed

lemma get_stores_in_area_valid:
  assumes "location \<in> set (get_stores_in_area ds lat0 lng0 radius_km)"
  shows "nivelSocioeconomico location \<in> set nivel_cats
         \<and> entorno location \<in> set entorno_cats
         \<and> segmentoMaestro location \<in> set segmento_cats"
proof -
  define sorted_df where "sorted_df = sort_key (distance_km lat0 lng0)
     (filter (\<lambda>row. distance_km lat0 lng0 row \<le> radius_km) (stores_df ds @ test_stores_df ds))"
  have g: "get_stores_in_area ds lat0 lng0 radius_km =
      (case collect (map row_to_StoreLocation sorted_df) of Inl e \<Rightarrow> [] | Inr ls \<Rightarrow> ls)"
    unfolding get_stores_in_area_def Let_def sorted_df_def[symmetric] ..
  obtain ls where c: "collect (map row_to_StoreLocation sorted_df) = Inr ls"
    and m: "location \<in> set ls"
  proof (cases "collect (map row_to_StoreLocation sorted_df)")
    case (Inl e)
    with assms show ?thesis unfolding g by simp
  next
    case (Inr ls)
    with assms that show ?thesis unfolding g by simp
  qed
  from collect_Inr_D[OF c] m have "Inr location \<in> set (map row_to_StoreLocation sorted_df)"
    by simp
  then obtain row where "row_to_StoreLocation row = Inr location" by auto
  then show ?thesis by (rule row_to_StoreLocation_Inr)
qed

lemma distance_same_point:
  assumes "LATITUD_NUM row = lat0" and "LONGITUD_NUM row = lng0"
  shows "distance_km lat0 lng0 row = 0"
  using assms by (simp add: distance_km_def)

text \<open>
  Claim C6 as stated fails: a row of the store table whose environment is
  \<open>Industrial\<close>, outside the enumeration, raises a validation error when its
  \<open>StoreLocation\<close> is constructed, but \<open>get_stores_in_area\<close> swallows
  the error and returns the empty list (dropping the proper store beside it as well), so
  the search for the optimal locations of the area succeeds with an empty result instead
  of failing.
\<close>

theorem unknown_category_swallowed_counterexample:
  "ENTORNO_DES industrial_row \<notin> set entorno_cats
   \<and> stores_df industrial_service @ test_stores_df industrial_service
       = [training_row ''C'' ''Hogar'' Clasico, industrial_row]
   \<and> row_to_StoreLocation industrial_row = Inl ValidationError
   \<and> get_stores_in_area industrial_service (area_lat example_area) (area_lng example_area)
        (radius example_area) = []
   \<and> get_optimal_locations industrial_service example_model example_area = Inr []"
proof -
  have u: "ENTORNO_DES industrial_row \<notin> set entorno_cats"
    by (simp add: industrial_row_def training_row_def entorno_cats_def)
  have s: "stores_df industrial_service @ test_stores_df industrial_service
       = [training_row ''C'' ''Hogar'' Clasico, industrial_row]"
    by (simp add: industrial_service_def example_service_def)
  have r: "row_to_StoreLocation industrial_row = Inl ValidationError"
    by (rule row_to_StoreLocation_unknown) (simp add: u)
  have d: "distance_km (area_lat example_area) (area_lng example_area) industrial_row = 0"
    by (rule distance_same_point)
       (simp_all add: industrial_row_def training_row_def example_area_def)
  have m: "industrial_row
      \<in> set (stores_df industrial_service @ test_stores_df industrial_service)"
    unfolding s by simp
  have d': "distance_km (area_lat example_area) (area_lng example_area) industrial_row
      \<le> radius example_area"
    unfolding d by (simp add: example_area_def)
  have g: "get_stores_in_area industrial_service (area_lat example_area)
        (area_lng example_area) (radius example_area) = []"
    by (rule get_stores_in_area_swallows[OF m d' r])
  show ?thesis
    using u s r g by (simp add: get_optimal_locations_def optimal_of_stores_def)
qed

text \<open>
  Claim C6, amended. A record with a socioeconomic level, an environment or a master
  segment outside its enumeration is rejected with a validation error when its
  \<open>StoreLocation\<close> is constructed, so it never reaches the encoder and no
  vector is returned for it. When the record is a row of the store tables within the
  radius of a search, \<open>get_stores_in_area\<close> swallows that error and returns the
  empty list; every location it does return has its three categories inside the
  enumerations. The encoder itself makes no check: it returns the training columns for
  any record, with 0 under every indicator column of an enumeration the record's value
  is outside of.
\<close>

theorem unknown_category_handling:
  "(nivelSocioeconomico d \<notin> set nivel_cats
      \<or> entorno d \<notin> set entorno_cats
      \<or> segmentoMaestro d \<notin> set segmento_cats
     \<longrightarrow> StoreLocation_init d = Inl ValidationError)
   \<and> (row \<in> set (stores_df ds @ test_stores_df ds)
       \<and> distance_km lat0 lng0 row \<le> radius_km
       \<and> (NIVELSOCIOECONOMICO_DES row \<notin> set nivel_cats
          \<or> ENTORNO_DES row \<notin> set entorno_cats
          \<or> SEGMENTO_MAESTRO_DESC row \<notin> Some ` set segmento_cats)
     \<longrightarrow> row_to_StoreLocation row = Inl ValidationError
         \<and> get_stores_in_area ds lat0 lng0 radius_km = [])
   \<and> (\<forall>location \<in> set (get_stores_in_area ds lat0 lng0 radius_km).
         nivelSocioeconomico location \<in> set nivel_cats
         \<and> entorno location \<in> set entorno_cats
         \<and> segmentoMaestro location \<in> set segmento_cats)
   \<and> store_location_to_features ds d =
       Inr (map (\<lambda>col. (col, feature_value d col)) (get_training_data_columns ds))
   \<and> (nivelSocioeconomico d \<notin> set nivel_cats \<and> cat \<in> set nivel_cats
     \<longrightarrow> feature_value d (''nivelSocioeconomico_'' @ cat) = 0)
   \<and> (entorno d \<notin> set entorno_cats \<and> cat \<in> set entorno_cats
     \<longrightarrow> feature_value d (''entorno_'' @ cat) = 0)
   \<and> (segmentoMaestro d \<notin> set segmento_cats \<and> cat \<in> set segmento_cats
     \<longrightarrow> feature_value d (''segmentoMaestro_'' @ cat) = 0)"
proof (intro conjI impI ballI)
  show "StoreLocation_init d = Inl ValidationError"
    if "nivelSocioeconomico d \<notin> set nivel_cats
      \<or> entorno d \<notin> set entorno_cats
      \<or> segmentoMaestro d \<notin> set segmento_cats"
    using that by (rule StoreLocation_init_unknown)
  assume h: "row \<in> set (stores_df ds @ test_stores_df ds)
       \<and> distance_km lat0 lng0 row \<le> radius_km
       \<and> (NIVELSOCIOECONOMICO_DES row \<notin> set nivel_cats
          \<or> ENTORNO_DES row \<notin> set entorno_cats
          \<or> SEGMENTO_MAESTRO_DESC row \<notin> Some ` set segmento_cats)"
  then show r: "row_to_StoreLocation row = Inl ValidationError"
    by (intro row_to_StoreLocation_unknown) simp
  show "get_stores_in_area ds lat0 lng0 radius_km = []"
    using h by (intro get_stores_in_area_swallows[OF _ _ r]) simp_all
next
  fix location
  assume "location \<in> set (get_stores_in_area ds lat0 lng0 radius_km)"
  from get_stores_in_area_valid[OF this]
  show "nivelSocioeconomico location \<in> set nivel_cats"
    and "entorno location \<in> set entorno_cats"
    and "segmentoMaestro location \<in> set segmento_cats"
    by simp_all
next
  show "store_location_to_features ds d =
       Inr (map (\<lambda>col. (col, feature_value d col)) (get_training_data_columns ds))"
    by (rule store_location_to_features_eq)
  show "feature_value d (''nivelSocioeconomico_'' @ cat) = 0"
    if "nivelSocioeconomico d \<notin> set nivel_cats \<and> cat \<in> set nivel_cats"
    using that by (auto simp: feature_value_def location_frame_def)
  show "feature_value d (''entorno_'' @ cat) = 0"
    if "entorno d \<notin> set entorno_cats \<and> cat \<in> set entorno_cats"
    using that by (auto simp: feature_value_def location_frame_def)
  show "feature_value d (''segmentoMaestro_'' @ cat) = 0"
    if "segmentoMaestro d \<notin> set segmento_cats \<and> cat \<in> set segmento_cats"
    using that by (auto simp: feature_value_def location_frame_def)
qed

text \<open>
  The statement for the example location with the environment \<open>Industrial\<close>,
  for the store table with the \<open>Industrial\<close> row, and for the store table with
  the proper row alone.
\<close>

theorem unknown_category_handling_witness:
  "entorno (example_location\<lparr>entorno := ''Industrial''\<rparr>) \<notin> set entorno_cats
   \<and> StoreLocation_init (example_location\<lparr>entorno := ''Industrial''\<rparr>) = Inl ValidationError
   \<and> feature_value (example_location\<lparr>entorno := ''Industrial''\<rparr>) ''entorno_Hogar'' = 0
   \<and> industrial_row \<in> set (stores_df industrial_service @ test_stores_df industrial_service)
   \<and> distance_km (area_lat example_area) (area_lng example_area) industrial_row
       \<le> radius example_area
   \<and> ENTORNO_DES industrial_row \<notin> set entorno_cats
   \<and> get_stores_in_area industrial_service (area_lat example_area) (area_lng example_area)
        (radius example_area) = []
   \<and> get_stores_in_area
        (example_service\<lparr>stores_df := [training_row ''C'' ''Hogar'' Clasico]\<rparr>)
        (area_lat example_area) (area_lng example_area) (radius example_area)
       = [example_location\<lparr>tiendaId := Some 1\<rparr>]
   \<and> entorno (example_location\<lparr>tiendaId := Some 1\<rparr>) \<in> set entorno_cats"
proof -
  let ?d = "example_location\<lparr>entorno := ''Industrial''\<rparr>"
  let ?ok = "example_service\<lparr>stores_df := [training_row ''C'' ''Hogar'' Clasico]\<rparr>"
  have u: "entorno ?d \<notin> set entorno_cats"
    by (simp add: entorno_cats_def)
  have c: "''Hogar'' \<in> set entorno_cats"
    by (simp add: entorno_cats_def)
  have m: "industrial_row \<in> set (stores_df industrial_service @ test_stores_df industrial_service)"
    by (simp add: industrial_service_def example_service_def)
  have dist: "distance_km (area_lat example_area) (area_lng example_area) row = 0"
    if "LATITUD_NUM row = 25.67" "LONGITUD_NUM row = - 100.22" for row
    by (rule distance_same_point) (simp_all add: that example_area_def)
  have "distance_km (area_lat example_area) (area_lng example_area) industrial_row = 0"
    by (rule dist) (simp_all add: industrial_row_def training_row_def)
  then have d: "distance_km (area_lat example_area) (area_lng example_area) industrial_row
       \<le> radius example_area"
    by (simp add: example_area_def)
  have r: "ENTORNO_DES industrial_row \<notin> set entorno_cats"
    by (simp add: industrial_row_def training_row_def entorno_cats_def)
  have ok: "row_to_StoreLocation (training_row ''C'' ''Hogar'' Clasico)
            = Inr (example_location\<lparr>tiendaId := Some 1\<rparr>)"
    by (simp add: row_to_StoreLocation_def training_row_def example_location_def
        StoreLocation_init_def validate_nivel_socioeconomico_def validate_entorno_def
        validate_segmento_maestro_def validate_latitud_def validate_longitud_def is_ok_def
        Clasico_def)
  have g: "get_stores_in_area ?ok (area_lat example_area) (area_lng example_area)
        (radius example_area) = [example_location\<lparr>tiendaId := Some 1\<rparr>]"
    using dist[of "training_row ''C'' ''Hogar'' Clasico"]
    by (simp add: get_stores_in_area_def example_service_def ok example_area_def
        training_row_def[of "''C''" "''Hogar''" Clasico, THEN arg_cong[where f=LATITUD_NUM]]
        training_row_def[of "''C''" "''Hogar''" Clasico, THEN arg_cong[where f=LONGITUD_NUM]])
  note main = unknown_category_handling[of ?d industrial_row industrial_service
      "area_lat example_area" "area_lng example_area" "radius example_area" "''Hogar''"]
  note valid = unknown_category_handling[of ?d industrial_row ?ok
      "area_lat example_area" "area_lng example_area" "radius example_area" "''Hogar''"]
  have "StoreLocation_init ?d = Inl ValidationError"
    using main u by simp
  moreover have "feature_value ?d ''entorno_Hogar'' = 0"
    using main u c by simp
  moreover have "get_stores_in_area industrial_service (area_lat example_area)
        (area_lng example_area) (radius example_area) = []"
    using main[THEN conjunct2, THEN conjunct1] m d r by blast
  moreover have "entorno (example_location\<lparr>tiendaId := Some 1\<rparr>) \<in> set entorno_cats"
    using valid g by simp
  ultimately show ?thesis using u m d r g by simp
qed






subsection \<open>Ranking (claim C5)\<close>

lemma score_stores_Inr:
  assumes "score_stores ds model stores = Inr scored"
  shows "scored = map (\<lambda>s. (s, store_score ds model s)) stores
         \<and> (\<forall>s \<in> set stores. is_ok (predict_location ds model s))"
  using assms unfolding score_stores_def collect_eq_Inr
proof (induction stores arbitrary: scored)
  case Nil
  then show ?case by simp
next
  case (Cons s stores)
  then show ?case
    by (cases scored) (auto simp: store_score_def is_ok_def split: sum.splits)
qed

lemma score_stores_total:
  assumes "\<forall>s \<in> set stores. is_ok (predict_location ds model s)"
  shows "\<exists>scored. score_stores ds model stores = Inr scored"
  unfolding score_stores_def
  by (rule collect_Inr_or_Inl) (use assms in \<open>auto simp: is_ok_def split: sum.splits\<close>)

lemma filter_take_prefix: "prefix (filter P (take n xs)) (filter P xs)"
proof -
  have "filter P xs = filter P (take n xs) @ filter P (drop n xs)"
    by (metis append_take_drop_id filter_append)
  then show ?thesis by (simp add: prefix_def)
qed

lemma insort_key_map: "insort_key f (h x) (map h xs) = map h (insort_key (f \<circ> h) x xs)"
  by (induction xs) simp_all

lemma sort_key_map: "sort_key f (map h xs) = map h (sort_key (f \<circ> h) xs)"
  by (induction xs) (simp_all add: insort_key_map del: o_apply)

text \<open>
  Sorting the pairs of a store and its score by the score, and dropping the scores, is
  sorting the stores by their score.
\<close>

lemma sort_scored:
  fixes sc :: "'a \<Rightarrow> real"
  shows "map fst (take 5 (sort_key (\<lambda>x. - snd x) (map (\<lambda>s. (s, sc s)) stores)))
         = take 5 (sort_key (\<lambda>s. - sc s) stores)"
proof -
  have "sort_key (\<lambda>x. - snd x) (map (\<lambda>s. (s, sc s)) stores)
        = map (\<lambda>s. (s, sc s)) (sort_key (\<lambda>s. - sc s) stores)"
    unfolding sort_key_map by (simp add: comp_def)
  then show ?thesis by (simp add: take_map comp_def)
qed

lemma ranking_properties:
  fixes sc :: "'a \<Rightarrow> real"
  defines "out \<equiv> (\<lambda>stores. take 5 (sort_key (\<lambda>s. - sc s) stores))"
  shows "length (out stores) = min 5 (length stores)"
    and "sorted_wrt (\<lambda>a b. sc a \<ge> sc b) (out stores)"
    and "prefix (filter (\<lambda>s. sc s = v) (out stores)) (filter (\<lambda>s. sc s = v) stores)"
    and "\<exists>rest. mset (out stores @ rest) = mset stores
           \<and> (\<forall>a \<in> set (out stores). \<forall>b \<in> set rest. sc b \<le> sc a)"
proof -
  let ?L = "sort_key (\<lambda>s. - sc s) stores"
  show "length (out stores) = min 5 (length stores)"
    by (simp add: out_def min.commute)
  have "sorted (map (\<lambda>s. - sc s) ?L)" by (rule sorted_sort_key)
  then have L: "sorted_wrt (\<lambda>a b. sc a \<ge> sc b) ?L"
    by (simp add: sorted_map)
  then show "sorted_wrt (\<lambda>a b. sc a \<ge> sc b) (out stores)"
    unfolding out_def by (rule sorted_wrt_take)
  have "filter (\<lambda>s. - sc s = - v) ?L = filter (\<lambda>s. - sc s = - v) stores"
    by (rule sort_key_stable)
  then have "filter (\<lambda>s. sc s = v) ?L = filter (\<lambda>s. sc s = v) stores"
    by simp
  then show "prefix (filter (\<lambda>s. sc s = v) (out stores)) (filter (\<lambda>s. sc s = v) stores)"
    unfolding out_def using filter_take_prefix[of "\<lambda>s. sc s = v" 5 ?L] by simp
  have "sorted_wrt (\<lambda>a b. sc a \<ge> sc b) (take 5 ?L @ drop 5 ?L)"
    using L by simp
  then have "\<forall>a \<in> set (take 5 ?L). \<forall>b \<in> set (drop 5 ?L). sc b \<le> sc a"
    unfolding sorted_wrt_append by blast
  moreover have "mset (take 5 ?L @ drop 5 ?L) = mset stores"
    by simp
  ultimately show "\<exists>rest. mset (out stores @ rest) = mset stores
           \<and> (\<forall>a \<in> set (out stores). \<forall>b \<in> set rest. sc b \<le> sc a)"
    unfolding out_def by blast
qed

lemma optimal_of_stores_ok:
  assumes "\<forall>s \<in> set stores. is_ok (predict_location ds model s)"
  shows "optimal_of_stores ds model stores
         = Inr (take 5 (sort_key (\<lambda>s. - store_score ds model s) stores))"
proof (cases "stores = []")
  case True
  then show ?thesis by (simp add: optimal_of_stores_def)
next
  case False
  from score_stores_total[OF assms] obtain scored
    where s: "score_stores ds model stores = Inr scored" by blast
  from score_stores_Inr[OF s]
  have "scored = map (\<lambda>s. (s, store_score ds model s)) stores" by simp
  with s False show ?thesis
    by (simp add: optimal_of_stores_def sort_scored)
qed

lemma optimal_of_stores_Inr:
  assumes "optimal_of_stores ds model stores = Inr out"
  shows "\<forall>s \<in> set stores. is_ok (predict_location ds model s)"
proof (cases "stores = []")
  case True
  then show ?thesis by simp
next
  case False
  with assms obtain scored where "score_stores ds model stores = Inr scored"
    by (auto simp: optimal_of_stores_def split: sum.splits)
  from score_stores_Inr[OF this] show ?thesis by simp
qed

text \<open>
  Claim C5. For every list of stores whose predictions all succeed, the ranking is returned
  and is exactly the first five stores of the input sorted by non-increasing prediction
  score with a stable sort: it has \<open>min 5 n\<close> stores for an input of
  \<open>n\<close>, it is sorted by non-increasing score, stores of equal score keep their
  relative order of the input (for every score value, the stores of that score in the
  output are a prefix of the stores of that score in the input), and every store that is
  left out scores no more than every store returned. When a prediction fails, no ranking
  is returned. \<open>get_optimal_locations\<close> is this ranking of the stores found in
  the area.
\<close>

theorem optimal_locations_ranked:
  "((\<forall>s \<in> set stores. is_ok (predict_location ds model s))
      \<longrightarrow> optimal_of_stores ds model stores
            = Inr (take 5 (sort_key (\<lambda>s. - store_score ds model s) stores)))
   \<and> (optimal_of_stores ds model stores = Inr out \<longrightarrow>
        (\<forall>s \<in> set stores. is_ok (predict_location ds model s))
        \<and> out = take 5 (sort_key (\<lambda>s. - store_score ds model s) stores)
        \<and> length out = min 5 (length stores)
        \<and> sorted_wrt (\<lambda>a b. store_score ds model a \<ge> store_score ds model b) out
        \<and> (\<forall>v. prefix (filter (\<lambda>s. store_score ds model s = v) out)
                       (filter (\<lambda>s. store_score ds model s = v) stores))
        \<and> (\<exists>rest. mset (out @ rest) = mset stores
              \<and> (\<forall>a \<in> set out. \<forall>b \<in> set rest.
                    store_score ds model b \<le> store_score ds model a)))
   \<and> get_optimal_locations ds model area =
       optimal_of_stores ds model
         (get_stores_in_area ds (area_lat area) (area_lng area) (radius area))"
proof (intro conjI impI allI)
  show "optimal_of_stores ds model stores
            = Inr (take 5 (sort_key (\<lambda>s. - store_score ds model s) stores))"
    if "\<forall>s \<in> set stores. is_ok (predict_location ds model s)"
    using that by (rule optimal_of_stores_ok)
next
  assume r: "optimal_of_stores ds model stores = Inr out"
  show ok: "\<forall>s \<in> set stores. is_ok (predict_location ds model s)"
    using r by (rule optimal_of_stores_Inr)
  show o: "out = take 5 (sort_key (\<lambda>s. - store_score ds model s) stores)"
    using optimal_of_stores_ok[OF ok] r by simp
  show "length out = min 5 (length stores)"
    unfolding o by (rule ranking_properties)
  show "sorted_wrt (\<lambda>a b. store_score ds model a \<ge> store_score ds model b) out"
    unfolding o by (rule ranking_properties)
  show "prefix (filter (\<lambda>s. store_score ds model s = v) out)
                     (filter (\<lambda>s. store_score ds model s = v) stores)" for v
    unfolding o by (rule ranking_properties)
  show "\<exists>rest. mset (out @ rest) = mset stores
              \<and> (\<forall>a \<in> set out. \<forall>b \<in> set rest.
                    store_score ds model b \<le> store_score ds model a)"
    unfolding o by (rule ranking_properties)
next
  show "get_optimal_locations ds model area =
       optimal_of_stores ds model
         (get_stores_in_area ds (area_lat area) (area_lng area) (radius area))"
    by (simp add: get_optimal_locations_def)
qed

lemma example_model_prediction:
  assumes "entorno location = ''Hogar''" and "0 \<le> mts2Ventas location"
  shows "\<exists>response. predict_location example_service example_model location = Inr response
           \<and> score response = score_of_ratio (mts2Ventas location / 100)"
proof -
  have cols: "get_training_data_columns example_service = numeric_features"
    by (simp add: get_training_data_columns_def example_service_def get_dummies_def get_dummies_1d_def segmento_is_object_def
        present_values_def)
  have m: "example_model (map (\<lambda>col. (col, feature_value location col))
             (get_training_data_columns example_service)) = Inr (mts2Ventas location / 100)"
    unfolding cols
    by (simp add: example_model_def numeric_features_def feature_value_def location_frame_def)
  show ?thesis
    unfolding predict_location_eq[of example_service location _ example_model
        "mts2Ventas location / 100", OF store_location_to_features_eq m]
    using assms by (simp add: example_target expected_sales_of_def Let_def)
qed

lemma example_store_scores:
  "is_ok (predict_location example_service example_model store_a)"
  "is_ok (predict_location example_service example_model store_b)"
  "is_ok (predict_location example_service example_model store_c)"
  "is_ok (predict_location example_service example_model store_d)"
  "is_ok (predict_location example_service example_model store_e)"
  "is_ok (predict_location example_service example_model store_f)"
  "is_ok (predict_location example_service example_model store_g)"
  "store_score example_service example_model store_a = 2 / 5"
  "store_score example_service example_model store_b = 4 / 5"
  "store_score example_service example_model store_c = 2 / 5"
  "store_score example_service example_model store_d = 3 / 5"
  "store_score example_service example_model store_e = 1 / 5"
  "store_score example_service example_model store_f = 1"
  "store_score example_service example_model store_g = 2 / 5"
  using example_model_prediction[of store_a] example_model_prediction[of store_b]
    example_model_prediction[of store_c] example_model_prediction[of store_d]
    example_model_prediction[of store_e] example_model_prediction[of store_f]
    example_model_prediction[of store_g]
  by (auto simp: store_a_def store_b_def store_c_def store_d_def store_e_def store_f_def
      store_g_def example_location_def is_ok_def store_score_def score_of_ratio_def)

lemma example_sorted:
  "take 5 (sort_key (\<lambda>s. - store_score example_service example_model s)
             [store_a, store_b, store_c, store_d, store_e, store_f, store_g])
   = [store_f, store_b, store_d, store_a, store_c]"
  by (simp add: example_store_scores)

text \<open>
  The statement on seven stores with the scores 2/5, 4/5, 2/5, 3/5, 1/5, 1 and 2/5: the
  five best are returned, best first; of the three stores tied at 2/5 the first two of the
  input are returned, in their input order, and the third is left out with the store of
  score 1/5.
\<close>

theorem optimal_locations_ranked_witness:
  "is_ok (predict_location example_service example_model store_a)
   \<and> is_ok (predict_location example_service example_model store_b)
   \<and> is_ok (predict_location example_service example_model store_c)
   \<and> is_ok (predict_location example_service example_model store_d)
   \<and> is_ok (predict_location example_service example_model store_e)
   \<and> is_ok (predict_location example_service example_model store_f)
   \<and> is_ok (predict_location example_service example_model store_g)
   \<and> store_score example_service example_model store_a = 2 / 5
   \<and> store_score example_service example_model store_b = 4 / 5
   \<and> store_score example_service example_model store_c = 2 / 5
   \<and> store_score example_service example_model store_d = 3 / 5
   \<and> store_score example_service example_model store_e = 1 / 5
   \<and> store_score example_service example_model store_f = 1
   \<and> store_score example_service example_model store_g = 2 / 5
   \<and> optimal_of_stores example_service example_model
        [store_a, store_b, store_c, store_d, store_e, store_f, store_g]
       = Inr [store_f, store_b, store_d, store_a, store_c]
   \<and> length [store_f, store_b, store_d, store_a, store_c]
       = min 5 (length [store_a, store_b, store_c, store_d, store_e, store_f, store_g])
   \<and> prefix (filter (\<lambda>s. store_score example_service example_model s = 2 / 5)
               [store_f, store_b, store_d, store_a, store_c])
            (filter (\<lambda>s. store_score example_service example_model s = 2 / 5)
               [store_a, store_b, store_c, store_d, store_e, store_f, store_g])"
proof -
  let ?stores = "[store_a, store_b, store_c, store_d, store_e, store_f, store_g]"
  let ?out = "[store_f, store_b, store_d, store_a, store_c]"
  note main = optimal_locations_ranked[of ?stores example_service example_model ?out]
  have ok: "\<forall>s \<in> set ?stores. is_ok (predict_location example_service example_model s)"
    by (simp add: example_store_scores)
  have r: "optimal_of_stores example_service example_model ?stores = Inr ?out"
    using main[THEN conjunct1] ok unfolding example_sorted by blast
  from main[THEN conjunct2, THEN conjunct1] r
  have "length ?out = min 5 (length ?stores)"
    and "prefix (filter (\<lambda>s. store_score example_service example_model s = 2 / 5) ?out)
            (filter (\<lambda>s. store_score example_service example_model s = 2 / 5) ?stores)"
    by blast+
  with r show ?thesis
    using example_store_scores by simp
qed
subsection \<open>Map bounds and heatmap (claims C10, C8)\<close>

lemma MapBounds_init_Inr:
  "MapBounds_init b = Inr bounds \<longleftrightarrow>
     bounds = b \<and> 0 \<le> north b \<and> north b \<le> 90 \<and> 0 \<le> south b \<and> south b \<le> 90
     \<and> - 180 \<le> east b \<and> east b \<le> 180 \<and> - 180 \<le> west b \<and> west b \<le> 180
     \<and> south b < north b \<and> west b < east b"
  by (auto simp: MapBounds_init_def validate_bounds_def)

lemma color_is_valid: "is_ok (validate_color (get_color_for_score sc))"
  by (simp add: get_color_for_score_def validate_color_def is_ok_def is_hex_digit_def)

lemma uniform_in_range:
  assumes "0 \<le> u" and "u < 1"
  shows "0.3 \<le> random_uniform 0.3 0.9 u" and "random_uniform 0.3 0.9 u < 0.9"
  using assms by (simp_all add: random_uniform_def)

text \<open>
  A grid coordinate \<open>lo + (i + 0.5) * ((hi - lo) / 10)\<close>, with every operation
  rounded, stays between \<open>lo\<close> and \<open>hi\<close>: the offset is rounded
  three times, each time by a relative error of at most 1/1000 and an absolute error of at
  most \<open>t\<close>, and started from at most 0.95 of the width.
\<close>

lemma grid_coordinate_inside:
  assumes r: "rounding fl e t" and lo: "fl lo = lo" and hi: "fl hi = hi"
    and o: "lo \<le> hi" and w: "hi - lo \<le> 360" and u: "1000 * t \<le> hi - lo"
    and i: "i < (10::nat)"
  shows "lo \<le> fl (lo + fl ((real i + 0.5) * fl (fl (hi - lo) / 10)))"
    and "fl (lo + fl ((real i + 0.5) * fl (fl (hi - lo) / 10))) \<le> hi"
proof -
  from r have e: "0 \<le> e" "e \<le> 1 / 1000" and t: "0 \<le> t" and z: "fl 0 = 0"
    and mono: "\<And>x y. x \<le> y \<Longrightarrow> fl x \<le> fl y"
    and err: "\<And>x. 0 \<le> x \<Longrightarrow> x \<le> 1000 \<Longrightarrow> fl x \<le> x * (1 + e) + t"
    unfolding rounding_def by simp_all
  have up: "fl x \<le> x * (1001 / 1000) + t" if "0 \<le> x" "x \<le> 1000" for x
  proof -
    have "x * (1 + e) \<le> x * (1001 / 1000)"
      using that(1) e(2) by (intro mult_left_mono) simp_all
    with err[OF that] show ?thesis by linarith
  qed
  have pos: "0 \<le> fl x" if "0 \<le> x" for x
    using mono[OF that] z by simp
  define d where "d = hi - lo"
  define A where "A = fl d"
  define B where "B = fl (A / 10)"
  define m where "m = (real i + 0.5) * B"
  define C where "C = fl m"
  have d: "0 \<le> d" "d \<le> 360" "1000 * t \<le> d"
    using o w u by (simp_all add: d_def)
  have A: "0 \<le> A" "A \<le> d * (1001 / 1000) + t"
    unfolding A_def using pos[of d] up[of d] d by simp_all
  have B: "0 \<le> B" "B \<le> A / 10 * (1001 / 1000) + t"
    unfolding B_def using pos[of "A / 10"] up[of "A / 10"] A d t by simp_all
  have "real i \<le> 9" using i by simp
  then have "(real i + 0.5) * B \<le> 9.5 * B"
    using B(1) by (intro mult_right_mono) simp_all
  then have m: "0 \<le> m" "m \<le> 9.5 * B"
    unfolding m_def using B(1) by simp_all
  have m1000: "m \<le> 1000" using m B A d t by linarith
  have C: "0 \<le> C" "C \<le> m * (1001 / 1000) + t"
    unfolding C_def using pos[OF m(1)] up[OF m(1) m1000] by simp_all
  have Cd: "C \<le> d" using C m B A d t by linarith
  have "fl lo \<le> fl (lo + C)" using C(1) by (intro mono) simp
  moreover have "fl (lo + C) \<le> fl hi" using Cd by (intro mono) (simp add: d_def)
  ultimately have "lo \<le> fl (lo + C)" "fl (lo + C) \<le> hi"
    unfolding lo hi by simp_all
  then show "lo \<le> fl (lo + fl ((real i + 0.5) * fl (fl (hi - lo) / 10)))"
    and "fl (lo + fl ((real i + 0.5) * fl (fl (hi - lo) / 10))) \<le> hi"
    unfolding C_def m_def B_def A_def d_def by simp_all
qed

lemma grid_inside:
  assumes b: "MapBounds_init b = Inr bounds"
    and r: "rounding fl e t" and p: "representable fl bounds"
    and u: "1000 * t \<le> north bounds - south bounds" "1000 * t \<le> east bounds - west bounds"
    and i: "i < 10"
  shows "south bounds \<le> grid_lat fl bounds i" and "grid_lat fl bounds i \<le> north bounds"
    and "west bounds \<le> grid_lng fl bounds i" and "grid_lng fl bounds i \<le> east bounds"
proof -
  from b have v: "0 \<le> north bounds" "north bounds \<le> 90" "0 \<le> south bounds"
      "south bounds \<le> 90" "- 180 \<le> east bounds" "east bounds \<le> 180"
      "- 180 \<le> west bounds" "west bounds \<le> 180"
      "south bounds < north bounds" "west bounds < east bounds"
    unfolding MapBounds_init_Inr by simp_all
  from p have f: "fl (north bounds) = north bounds" "fl (south bounds) = south bounds"
      "fl (east bounds) = east bounds" "fl (west bounds) = west bounds"
    unfolding representable_def by simp_all
  have la: "south bounds \<le> north bounds" "north bounds - south bounds \<le> 360"
    using v by linarith+
  have lo: "west bounds \<le> east bounds" "east bounds - west bounds \<le> 360"
    using v by linarith+
  show "south bounds \<le> grid_lat fl bounds i" and "grid_lat fl bounds i \<le> north bounds"
    unfolding grid_lat_def
    by (rule grid_coordinate_inside[OF r f(2) f(1) la u(1) i])+
  show "west bounds \<le> grid_lng fl bounds i" and "grid_lng fl bounds i \<le> east bounds"
    unfolding grid_lng_def
    by (rule grid_coordinate_inside[OF r f(4) f(3) lo u(2) i])+
qed

lemma grid_point_eq:
  "grid_point fl bounds rng i j = MapPoint_init (fabricated_point fl bounds rng i j)"
  by (simp add: grid_point_def fabricated_point_def grid_lat_def grid_lng_def Let_def)

lemma grid_point_fabricated:
  assumes b: "MapBounds_init b = Inr bounds" and g: "\<forall>k. 0 \<le> rng k \<and> rng k < 1"
    and r: "rounding fl e t" and p: "representable fl bounds"
    and u: "1000 * t \<le> north bounds - south bounds" "1000 * t \<le> east bounds - west bounds"
    and i: "i < 10" and j: "j < 10"
  shows "grid_point fl bounds rng i j = Inr (fabricated_point fl bounds rng i j)"
proof -
  from b have v: "0 \<le> north bounds" "north bounds \<le> 90" "0 \<le> south bounds"
      "south bounds \<le> 90" "- 180 \<le> east bounds" "east bounds \<le> 180"
      "- 180 \<le> west bounds" "west bounds \<le> 180"
    unfolding MapBounds_init_Inr by simp_all
  have la: "0 \<le> grid_lat fl bounds i" "grid_lat fl bounds i \<le> 90"
    using grid_inside(1,2)[OF b r p u i] v by linarith+
  have lo: "- 180 \<le> grid_lng fl bounds j" "grid_lng fl bounds j \<le> 180"
    using grid_inside(3,4)[OF b r p u j] v by linarith+
  from g have "0 \<le> rng (10 * i + j)" "rng (10 * i + j) < 1" by simp_all
  from uniform_in_range[OF this]
  have sc: "0 \<le> random_uniform 0.3 0.9 (rng (10 * i + j))"
      "random_uniform 0.3 0.9 (rng (10 * i + j)) \<le> 1"
    by linarith+
  show ?thesis
    unfolding grid_point_eq MapPoint_init_def
    using la lo sc color_is_valid by (simp add: fabricated_point_def)
qed

lemma concat_grid:
  "concat (map (\<lambda>i. map (f i) [0..<n]) [0..<m]) = map (\<lambda>k. f (k div n) (k mod n)) [0..<m * n]"
proof (induction m)
  case 0
  then show ?case by simp
next
  case (Suc m)
  have s: "Suc m * n = m * n + n" by simp
  have a: "[0..<m * n + n] = [0..<m * n] @ [m * n..<m * n + n]"
    by (rule upt_add_eq_append) simp
  have "map (\<lambda>j. j + m * n) [0..<n] = [m * n..<n + m * n]"
    by (rule map_add_upt)
  then have b: "[m * n..<m * n + n] = map (\<lambda>j. j + m * n) [0..<n]"
    by (simp only: add.commute[of n "m * n"])
  have c: "map (\<lambda>k. f (k div n) (k mod n)) (map (\<lambda>j. j + m * n) [0..<n]) = map (f m) [0..<n]"
    by (rule nth_equalityI) simp_all
  have "concat (map (\<lambda>i. map (f i) [0..<n]) [0..<Suc m])
        = concat (map (\<lambda>i. map (f i) [0..<n]) [0..<m]) @ map (f m) [0..<n]"
    by simp
  also have "\<dots> = map (\<lambda>k. f (k div n) (k mod n)) [0..<m * n] @ map (f m) [0..<n]"
    by (simp only: Suc)
  also have "\<dots> = map (\<lambda>k. f (k div n) (k mod n)) ([0..<m * n] @ map (\<lambda>j. j + m * n) [0..<n])"
    by (simp only: map_append c)
  finally show ?case
    by (simp only: s a b)
qed

lemma generate_grid_points_eq:
  assumes b: "MapBounds_init b = Inr bounds" and g: "\<forall>k. 0 \<le> rng k \<and> rng k < 1"
    and r: "rounding fl e t" and p: "representable fl bounds"
    and u: "1000 * t \<le> north bounds - south bounds" "1000 * t \<le> east bounds - west bounds"
  shows "generate_grid_points fl bounds rng =
           Inr (map (\<lambda>k. fabricated_point fl bounds rng (k div 10) (k mod 10)) [0..<100])"
proof -
  have h: "(10::nat) * 10 = 100" by simp
  have "concat (map (\<lambda>i. map (\<lambda>j. grid_point fl bounds rng i j) [0..<10]) [0..<10])
        = map (\<lambda>k. grid_point fl bounds rng (k div 10) (k mod 10)) [0..<10 * 10]"
    by (rule concat_grid)
  also have "\<dots> = map (\<lambda>k. Inr (fabricated_point fl bounds rng (k div 10) (k mod 10))) [0..<10 * 10]"
  proof (rule map_cong[OF refl])
    fix k :: nat
    assume "k \<in> set [0..<10 * 10]"
    then have "k < 10 * 10" by (simp only: set_upt atLeastLessThan_iff)
    then have "k div 10 < 10" "k mod 10 < 10" by simp_all
    then show "grid_point fl bounds rng (k div 10) (k mod 10)
               = Inr (fabricated_point fl bounds rng (k div 10) (k mod 10))"
      by (rule grid_point_fabricated[OF b g r p u])
  qed
  also have "\<dots> = map Inr (map (\<lambda>k. fabricated_point fl bounds rng (k div 10) (k mod 10)) [0..<100])"
    by (simp only: map_map comp_def h)
  finally show ?thesis
    unfolding generate_grid_points_def by (simp only: collect_map_Inr)
qed

lemma fabricated_grid:
  fixes fl bounds rng
  defines "L \<equiv> map (\<lambda>k. fabricated_point fl bounds rng (k div 10) (k mod 10)) [0..<100]"
  shows "length L = 100"
    and "i < 10 \<Longrightarrow> j < 10 \<Longrightarrow> L ! (10 * i + j) = fabricated_point fl bounds rng i j"
    and "p \<in> set L \<Longrightarrow> \<exists>i<10. \<exists>j<10. p = fabricated_point fl bounds rng i j"
proof -
  show "length L = 100" unfolding L_def by (simp del: upt_rec_numeral)
  show "L ! (10 * i + j) = fabricated_point fl bounds rng i j" if "i < 10" "j < 10"
  proof -
    from that have k: "10 * i + j < 100" by simp
    have "L ! (10 * i + j)
          = fabricated_point fl bounds rng ((10 * i + j) div 10) ((10 * i + j) mod 10)"
      unfolding L_def using k by (simp del: upt_rec_numeral)
    then show ?thesis using that by simp
  qed
  show "\<exists>i<10. \<exists>j<10. p = fabricated_point fl bounds rng i j" if "p \<in> set L"
  proof -
    from that obtain k where "k < 100"
      and p: "p = fabricated_point fl bounds rng (k div 10) (k mod 10)"
      unfolding L_def set_map set_upt by auto
    then have "k div 10 < 10" "k mod 10 < 10" by simp_all
    with p show ?thesis by blast
  qed
qed

lemma fabricated_point_inside:
  assumes b: "MapBounds_init b = Inr bounds"
    and r: "rounding fl e t" and p: "representable fl bounds"
    and u: "1000 * t \<le> north bounds - south bounds" "1000 * t \<le> east bounds - west bounds"
    and i: "i < 10" and j: "j < 10"
  shows "south bounds \<le> lat (fabricated_point fl bounds rng i j)
         \<and> lat (fabricated_point fl bounds rng i j) \<le> north bounds
         \<and> west bounds \<le> lng (fabricated_point fl bounds rng i j)
         \<and> lng (fabricated_point fl bounds rng i j) \<le> east bounds"
  using grid_inside(1,2)[OF b r p u i] grid_inside(3,4)[OF b r p u j]
  by (simp add: fabricated_point_def)

lemma round_1024_rounding: "rounding round_1024 0 (1 / 2048)"
proof -
  have m: "round_1024 x \<le> round_1024 y" if "x \<le> y" for x y
  proof -
    from that have "round (x * 1024) \<le> round (y * 1024)"
      by (intro round_mono) simp
    then show ?thesis by (simp add: round_1024_def divide_right_mono)
  qed
  have a: "round_1024 x \<le> x * (1 + 0) + 1 / 2048" for x
  proof -
    have "of_int (round (x * 1024)) \<le> x * 1024 + 1 / 2"
      by (rule of_int_round_le)
    then show ?thesis by (simp add: round_1024_def field_simps)
  qed
  have z: "round_1024 0 = 0" by (simp add: round_1024_def)
  show ?thesis
    unfolding rounding_def using m a z by simp
qed

lemma unit_bounds_valid:
  "MapBounds_init unit_bounds = Inr unit_bounds"
  "representable round_1024 unit_bounds"
  "1000 * (1 / 2048) \<le> north unit_bounds - south unit_bounds"
  "1000 * (1 / 2048) \<le> east unit_bounds - west unit_bounds"
  by (simp_all add: unit_bounds_def MapBounds_init_def validate_bounds_def representable_def
      round_1024_def)

lemma unit_bounds_first_point:
  "round_1024 (south unit_bounds
     + round_1024 ((real 0 + 0.5)
         * round_1024 (round_1024 (north unit_bounds - south unit_bounds) / 10))) = 25651 / 1024"
  "round_1024 (west unit_bounds
     + round_1024 ((real 0 + 0.5)
         * round_1024 (round_1024 (east unit_bounds - west unit_bounds) / 10))) = - 103373 / 1024"
  by (simp_all add: unit_bounds_def round_1024_def round_def)




lemma grid_point_color:
  "grid_point fl bounds rng i j = Inr p \<Longrightarrow> color p = get_color_for_score (point_score p)"
  by (auto simp: grid_point_def MapPoint_init_def Let_def split: if_splits)

lemma store_point_color:
  "store_point ds model ix = Inr p \<Longrightarrow> color p = get_color_for_score (point_score p)"
  by (cases ix) (auto simp: store_point_def MapPoint_init_def Let_def split: if_splits sum.splits)

lemma generate_grid_points_color:
  assumes "generate_grid_points fl bounds rng = Inr ps" and "p \<in> set ps"
  shows "color p = get_color_for_score (point_score p)"
proof -
  from assms(1)
  have "concat (map (\<lambda>i. map (\<lambda>j. grid_point fl bounds rng i j) [0..<10]) [0..<10]) = map Inr ps"
    unfolding generate_grid_points_def by (rule collect_Inr_D)
  then have "Inr p \<in> set (concat (map (\<lambda>i. map (\<lambda>j. grid_point fl bounds rng i j) [0..<10]) [0..<10]))"
    using assms(2) by (simp only: set_map) blast
  then obtain i j where "grid_point fl bounds rng i j = Inr p"
    unfolding set_concat set_map by auto
  then show ?thesis by (rule grid_point_color)
qed

lemma store_points_color:
  assumes "collect (map (store_point ds model) xs) = Inr ps" and "p \<in> set ps"
  shows "color p = get_color_for_score (point_score p)"
proof -
  from assms(1) have "map (store_point ds model) xs = map Inr ps"
    by (rule collect_Inr_D)
  then have "Inr p \<in> set (map (store_point ds model) xs)"
    using assms(2) by (simp only: set_map) blast
  then obtain ix where "store_point ds model ix = Inr p" by auto
  then show ?thesis by (rule store_point_color)
qed

lemma generate_heatmap_color:
  assumes "generate_heatmap ds model fl rng bounds = Inr h" and "p \<in> set (points h)"
  shows "color p = get_color_for_score (point_score p)"
  using assms generate_grid_points_color store_points_color
  unfolding generate_heatmap_def Let_def HeatmapData_init_def
  by (fastforce split: sum.splits if_splits)

text \<open>
  Claim C8, amended. For every valid bounds rectangle such that
  \<open>get_stores_in_area\<close> finds no store within the search radius around its
  centre (1.5 times the larger half-extent, at 111 km per degree), and generator samples
  in [0, 1), \<open>generate_heatmap\<close> returns exactly 100 points, the point number
  \<open>10 * i + j\<close> being the centre of cell \<open>(i, j)\<close> of the 10 by 10
  grid as the code computes it, with every operation rounded: latitude
  \<open>fl (south + fl ((i + 0.5) * fl (fl (north - south) / 10)))\<close>, longitude
  likewise, identifier \<open>grid_i_j\<close>, and as score the uniform draw number
  \<open>10 * i + j\<close>. Every point lies between south and north and between west and
  east, the bounds included (the rounded centres of neighbouring cells may coincide, and may
  lie on the boundary, when the rectangle is a few representable numbers wide), and has a
  score in [0.3, 0.9]. This holds for every rounding \<open>fl\<close> that satisfies
  \<open>rounding fl e t\<close>, when the four bounds are representable and the rectangle
  is at least \<open>1000 * t\<close> wide and high. And every point of every returned
  heatmap, fabricated or of a real store, is coloured by the four thresholds.
\<close>

theorem heatmap_fallback_grid:
  "(MapBounds_init b = Inr bounds \<and> (\<forall>k. 0 \<le> rng k \<and> rng k < 1)
      \<and> rounding fl e t \<and> representable fl bounds
      \<and> 1000 * t \<le> north bounds - south bounds
      \<and> 1000 * t \<le> east bounds - west bounds
      \<and> get_stores_in_area ds ((north bounds + south bounds) / 2)
            ((east bounds + west bounds) / 2)
            (max ((north bounds - south bounds) * 111 / 2)
                 ((east bounds - west bounds) * 111 / 2) * 1.5) = []
     \<longrightarrow> (\<exists>h. generate_heatmap ds model fl rng bounds = Inr h
            \<and> length (points h) = 100
            \<and> (\<forall>i<10. \<forall>j<10.
                  point_id (points h ! (10 * i + j)) = ''grid_'' @ str_nat i @ ''_'' @ str_nat j
                  \<and> lat (points h ! (10 * i + j))
                    = fl (south bounds
                          + fl ((real i + 0.5) * fl (fl (north bounds - south bounds) / 10)))
                  \<and> lng (points h ! (10 * i + j))
                    = fl (west bounds
                          + fl ((real j + 0.5) * fl (fl (east bounds - west bounds) / 10)))
                  \<and> point_score (points h ! (10 * i + j))
                    = random_uniform 0.3 0.9 (rng (10 * i + j)))
            \<and> (\<forall>p \<in> set (points h).
                  south bounds \<le> lat p \<and> lat p \<le> north bounds
                  \<and> west bounds \<le> lng p \<and> lng p \<le> east bounds
                  \<and> 0.3 \<le> point_score p \<and> point_score p \<le> 0.9)))
   \<and> (generate_heatmap ds model fl rng bounds = Inr h
       \<longrightarrow> (\<forall>p \<in> set (points h).
              color p = (if point_score p \<ge> 0.8 then ''#10b981''
                         else if point_score p \<ge> 0.6 then ''#3b82f6''
                         else if point_score p \<ge> 0.4 then ''#f59e0b''
                         else ''#ef4444'')))"
proof (intro conjI impI)
  assume a: "MapBounds_init b = Inr bounds \<and> (\<forall>k. 0 \<le> rng k \<and> rng k < 1)
      \<and> rounding fl e t \<and> representable fl bounds
      \<and> 1000 * t \<le> north bounds - south bounds
      \<and> 1000 * t \<le> east bounds - west bounds
      \<and> get_stores_in_area ds ((north bounds + south bounds) / 2)
            ((east bounds + west bounds) / 2)
            (max ((north bounds - south bounds) * 111 / 2)
                 ((east bounds - west bounds) * 111 / 2) * 1.5) = []"
  then have b: "MapBounds_init b = Inr bounds" and g: "\<forall>k. 0 \<le> rng k \<and> rng k < 1"
    and r: "rounding fl e t" and p: "representable fl bounds"
    and u: "1000 * t \<le> north bounds - south bounds"
      "1000 * t \<le> east bounds - west bounds"
    and e: "get_stores_in_area ds ((north bounds + south bounds) / 2)
            ((east bounds + west bounds) / 2)
            (max ((north bounds - south bounds) * 111 / 2)
                 ((east bounds - west bounds) * 111 / 2) * 1.5) = []"
    by simp_all
  define L where "L = map (\<lambda>k. fabricated_point fl bounds rng (k div 10) (k mod 10)) [0..<100]"
  from b have v: "0 \<le> north bounds" "north bounds \<le> 90" "0 \<le> south bounds" "south bounds \<le> 90"
     "- 180 \<le> east bounds" "east bounds \<le> 180" "- 180 \<le> west bounds" "west bounds \<le> 180"
    unfolding MapBounds_init_Inr by simp_all
  have hm: "generate_heatmap ds model fl rng bounds =
      Inr \<lparr>points = L, centerLat = (north bounds + south bounds) / 2,
           centerLng = (east bounds + west bounds) / 2\<rparr>"
    unfolding generate_heatmap_def Let_def e generate_grid_points_eq[OF b g r p u] L_def[symmetric]
    using v by (simp add: HeatmapData_init_def)
  have len: "length L = 100" unfolding L_def by (rule fabricated_grid(1))
  have nth: "L ! (10 * i + j) = fabricated_point fl bounds rng i j" if "i < 10" "j < 10" for i j
    unfolding L_def using that by (rule fabricated_grid(2))
  have mem: "south bounds \<le> lat q \<and> lat q \<le> north bounds
                  \<and> west bounds \<le> lng q \<and> lng q \<le> east bounds
                  \<and> 0.3 \<le> point_score q \<and> point_score q \<le> 0.9" if "q \<in> set L" for q
  proof -
    from fabricated_grid(3)[OF that[unfolded L_def]]
    obtain i j where ij: "i < 10" "j < 10" and q: "q = fabricated_point fl bounds rng i j"
      by blast
    from g have "0 \<le> rng (10 * i + j)" "rng (10 * i + j) < 1" by simp_all
    from uniform_in_range[OF this]
    have "0.3 \<le> point_score q \<and> point_score q \<le> 0.9"
      unfolding q by (simp add: fabricated_point_def)
    with fabricated_point_inside[OF b r p u ij, of rng] show ?thesis
      unfolding q by blast
  qed
  show "\<exists>h. generate_heatmap ds model fl rng bounds = Inr h
            \<and> length (points h) = 100
            \<and> (\<forall>i<10. \<forall>j<10.
                  point_id (points h ! (10 * i + j)) = ''grid_'' @ str_nat i @ ''_'' @ str_nat j
                  \<and> lat (points h ! (10 * i + j))
                    = fl (south bounds
                          + fl ((real i + 0.5) * fl (fl (north bounds - south bounds) / 10)))
                  \<and> lng (points h ! (10 * i + j))
                    = fl (west bounds
                          + fl ((real j + 0.5) * fl (fl (east bounds - west bounds) / 10)))
                  \<and> point_score (points h ! (10 * i + j))
                    = random_uniform 0.3 0.9 (rng (10 * i + j)))
            \<and> (\<forall>p \<in> set (points h).
                  south bounds \<le> lat p \<and> lat p \<le> north bounds
                  \<and> west bounds \<le> lng p \<and> lng p \<le> east bounds
                  \<and> 0.3 \<le> point_score p \<and> point_score p \<le> 0.9)"
    unfolding hm using len nth mem
    by (simp add: fabricated_point_def grid_lat_def grid_lng_def)
next
  assume "generate_heatmap ds model fl rng bounds = Inr h"
  from generate_heatmap_color[OF this]
  show "\<forall>p \<in> set (points h).
              color p = (if point_score p \<ge> 0.8 then ''#10b981''
                         else if point_score p \<ge> 0.6 then ''#3b82f6''
                         else if point_score p \<ge> 0.4 then ''#f59e0b''
                         else ''#ef4444'')"
    unfolding get_color_for_score_def by blast
qed

text \<open>
  The statement for the example service, which has no stores, on the rectangle
  \<open>unit_bounds\<close>, with every operation rounded to the nearest multiple of
  1/1024: the first point is not the exact cell centre (25.05, -100.95) but the rounded one,
  and its score 0.6 makes it blue.
\<close>

theorem heatmap_fallback_grid_witness:
  "MapBounds_init unit_bounds = Inr unit_bounds
   \<and> rounding round_1024 0 (1 / 2048)
   \<and> representable round_1024 unit_bounds
   \<and> 1000 * (1 / 2048) \<le> north unit_bounds - south unit_bounds
   \<and> 1000 * (1 / 2048) \<le> east unit_bounds - west unit_bounds
   \<and> get_stores_in_area example_service
        ((north unit_bounds + south unit_bounds) / 2)
        ((east unit_bounds + west unit_bounds) / 2)
        (max ((north unit_bounds - south unit_bounds) * 111 / 2)
             ((east unit_bounds - west unit_bounds) * 111 / 2) * 1.5) = []
   \<and> (\<exists>h. generate_heatmap example_service example_model round_1024 (\<lambda>k. 1 / 2) unit_bounds
            = Inr h
          \<and> length (points h) = 100
          \<and> point_id (points h ! 0) = ''grid_0_0''
          \<and> lat (points h ! 0) = 25651 / 1024
          \<and> lng (points h ! 0) = - 103373 / 1024
          \<and> point_score (points h ! 0) = 3 / 5
          \<and> color (points h ! 0) = ''#3b82f6'')"
proof -
  note v = unit_bounds_valid
  have e: "get_stores_in_area example_service lat0 lng0 r = []" for lat0 lng0 r
    by (simp add: get_stores_in_area_def example_service_def)
  note main = heatmap_fallback_grid[of unit_bounds unit_bounds "\<lambda>k. 1 / 2"
      round_1024 0 "1 / 2048" example_service example_model]
  from main[of undefined] v e round_1024_rounding
  obtain h where h: "generate_heatmap example_service example_model round_1024
        (\<lambda>k. 1 / 2) unit_bounds = Inr h"
    and len: "length (points h) = 100"
    and pt: "\<forall>i<10. \<forall>j<10.
        point_id (points h ! (10 * i + j)) = ''grid_'' @ str_nat i @ ''_'' @ str_nat j
        \<and> lat (points h ! (10 * i + j))
            = round_1024 (south unit_bounds
                + round_1024 ((real i + 0.5)
                    * round_1024 (round_1024 (north unit_bounds - south unit_bounds) / 10)))
        \<and> lng (points h ! (10 * i + j))
            = round_1024 (west unit_bounds
                + round_1024 ((real j + 0.5)
                    * round_1024 (round_1024 (east unit_bounds - west unit_bounds) / 10)))
        \<and> point_score (points h ! (10 * i + j)) = random_uniform 0.3 0.9 (1 / 2)"
    by auto
  from pt[rule_format, of 0 0]
  have p0: "point_id (points h ! 0) = ''grid_'' @ str_nat 0 @ ''_'' @ str_nat 0"
    "lat (points h ! 0) = 25651 / 1024" "lng (points h ! 0) = - 103373 / 1024"
    "point_score (points h ! 0) = random_uniform 0.3 0.9 (1 / 2)"
    unfolding unit_bounds_first_point by simp_all
  have id0: "point_id (points h ! 0) = ''grid_0_0''"
  proof -
    have "char_of (48::nat) = CHR ''0''" by code_simp
    then show ?thesis unfolding p0(1) by (simp add: str_nat.simps[of 0])
  qed
  have sc: "point_score (points h ! 0) = 3 / 5"
    unfolding p0(4) by (simp add: random_uniform_def)
  from len have "points h ! 0 \<in> set (points h)" by simp
  with main[of h] h have "color (points h ! 0) = ''#3b82f6''"
    by (simp add: sc)
  with h len sc id0 p0(2,3) v e round_1024_rounding show ?thesis by blast
qed

lemma distance_same_meridian:
  assumes "LONGITUD_NUM row = lng0" and "lat0 \<le> LATITUD_NUM row"
    and "LATITUD_NUM row - lat0 \<le> 180"
  shows "distance_km lat0 lng0 row = 6371 * radians (LATITUD_NUM row - lat0)"
proof -
  define x where "x = (radians (LATITUD_NUM row) - radians lat0) / 2"
  have xe: "x = (LATITUD_NUM row - lat0) * (pi / 360)"
    unfolding x_def radians_def by (simp add: field_simps)
  have "(LATITUD_NUM row - lat0) * (pi / 360) \<le> 180 * (pi / 360)"
    using assms(3) by (intro mult_right_mono) simp_all
  then have x: "0 \<le> x" "x \<le> pi / 2"
    unfolding xe using assms(2) by simp_all
  have "0 \<le> sin x"
    by (rule sin_ge_zero) (use x pi_gt_zero in auto)
  then have "sqrt ((sin x)\<^sup>2) = sin x" by simp
  moreover have "arcsin (sin x) = x"
    by (rule arcsin_sin) (use x in auto)
  ultimately have "distance_km lat0 lng0 row = 6371 * (2 * x)"
    unfolding distance_km_def Let_def assms(1) x_def[symmetric] by simp
  then show ?thesis
    unfolding x_def radians_def by (simp add: field_simps)
qed

lemma outside_distance:
  "distance_km (51 / 2) (- 201 / 2) outside_row \<le> 333 / 4"
proof -
  have "distance_km (51 / 2) (- 201 / 2) outside_row
        = 6371 * radians (LATITUD_NUM outside_row - 51 / 2)"
    by (rule distance_same_meridian) (simp_all add: outside_row_def)
  also have "\<dots> = 6371 * (11 / 20) * pi / 180"
    by (simp add: radians_def outside_row_def)
  also have "\<dots> \<le> 6371 * (11 / 20) * 4 / 180"
    using pi_less_4 by simp
  also have "\<dots> \<le> 333 / 4" by simp
  finally show ?thesis .
qed

lemma outside_row_location: "row_to_StoreLocation outside_row = Inr outside_store"
  by (simp add: row_to_StoreLocation_def outside_row_def outside_store_def StoreLocation_init_def
      validate_nivel_socioeconomico_def validate_entorno_def validate_segmento_maestro_def
      validate_latitud_def validate_longitud_def is_ok_def Clasico_def)

lemma outside_stores_in_area:
  "get_stores_in_area outside_service (51 / 2) (- 201 / 2) (333 / 4) = [outside_store]"
  using outside_distance
  by (simp add: get_stores_in_area_def outside_service_def example_service_def
      outside_row_location)

lemma outside_prediction:
  "\<exists>response. predict_location outside_service example_model outside_store = Inr response
     \<and> score response = 2 / 3"
proof -
  have cols: "get_training_data_columns outside_service = numeric_features"
    by (simp add: get_training_data_columns_def outside_service_def example_service_def
        get_dummies_def get_dummies_1d_def segmento_is_object_def present_values_def)
  have m: "example_model (map (\<lambda>col. (col, feature_value outside_store col))
             (get_training_data_columns outside_service)) = Inr 1"
    unfolding cols
    by (simp add: example_model_def numeric_features_def feature_value_def location_frame_def
        outside_store_def)
  have t: "get_sales_target_for_environment outside_service (entorno outside_store) = Some 480000"
    by (simp add: get_sales_target_for_environment_def outside_service_def example_service_def
        outside_store_def)
  show ?thesis
    unfolding predict_location_eq[of outside_service outside_store _ example_model 1,
        OF store_location_to_features_eq m] t
    by (simp add: expected_sales_of_def Let_def score_of_ratio_def)
qed

lemma str_int_7: "str_int 7 = ''7''"
proof -
  have "char_of (55::nat) = CHR ''7''" by code_simp
  then show ?thesis by (simp add: str_int_def str_nat.simps[of 7])
qed

text \<open>
  Claim C8 as stated fails: the rectangle \<open>unit_bounds\<close> is valid and contains
  no store (the only store lies north of it), yet the store is within the search radius of
  83.25 km, so the heatmap is the single point of that store and not a grid of 100 points.
\<close>

theorem heatmap_radius_counterexample:
  "MapBounds_init unit_bounds = Inr unit_bounds
   \<and> stores_df outside_service @ test_stores_df outside_service = [outside_row]
   \<and> north unit_bounds < LATITUD_NUM outside_row
   \<and> generate_heatmap outside_service example_model (\<lambda>x. x) (\<lambda>k. 0) unit_bounds =
       Inr \<lparr>points = [\<lparr>point_id = ''store_7'', lat = 26.05, lng = - 100.5,
                        point_score = 2 / 3, color = ''#3b82f6''\<rparr>],
            centerLat = 51 / 2, centerLng = - 201 / 2\<rparr>"
proof -
  have v: "MapBounds_init unit_bounds = Inr unit_bounds"
    by (simp add: unit_bounds_def MapBounds_init_def validate_bounds_def)
  have s: "stores_df outside_service @ test_stores_df outside_service = [outside_row]"
    by (simp add: outside_service_def example_service_def)
  have n: "north unit_bounds < LATITUD_NUM outside_row"
    by (simp add: unit_bounds_def outside_row_def)
  have c: "(north unit_bounds + south unit_bounds) / 2 = 51 / 2"
    "(east unit_bounds + west unit_bounds) / 2 = - 201 / 2"
    "max ((north unit_bounds - south unit_bounds) * 111 / 2)
         ((east unit_bounds - west unit_bounds) * 111 / 2) * 1.5 = 333 / 4"
    by (simp_all add: unit_bounds_def)
  from outside_prediction obtain response
    where p: "predict_location outside_service example_model outside_store = Inr response"
      and sc: "score response = 2 / 3"
    by blast
  have sp: "store_point outside_service example_model (0, outside_store) =
      Inr \<lparr>point_id = ''store_7'', lat = 26.05, lng = - 100.5,
           point_score = 2 / 3, color = ''#3b82f6''\<rparr>"
  proof -
    have f: "tiendaId outside_store = Some 7" "latitud outside_store = 26.05"
      "longitud outside_store = - 100.5"
      by (simp_all add: outside_store_def)
    show ?thesis
      by (simp add: store_point_def p sc Let_def f str_int_7
        get_color_for_score_def MapPoint_init_def validate_color_def is_ok_def is_hex_digit_def)
  qed
  have "generate_heatmap outside_service example_model (\<lambda>x. x) (\<lambda>k. 0) unit_bounds =
       Inr \<lparr>points = [\<lparr>point_id = ''store_7'', lat = 26.05, lng = - 100.5,
                        point_score = 2 / 3, color = ''#3b82f6''\<rparr>],
            centerLat = 51 / 2, centerLng = - 201 / 2\<rparr>"
    unfolding generate_heatmap_def Let_def c outside_stores_in_area
    by (simp add: sp HeatmapData_init_def)
  with v s n show ?thesis by simp
qed

end
